theory Spec2Isabelle
  imports Main "HOL-Library.Word" "HOL-Library.AList"
begin

unbundle bit_operations_syntax

section \<open>Shadow map registry of the runtime renderer (qssgrendershadowmap.cpp)\<close>

text \<open>
  A shallow embedding of \<^verbatim>\<open>src/runtimerender/qssgrendershadowmap.cpp\<close>.

  Conventions of the embedding.
  \<^item> GPU objects live in an explicit store: a handle is a natural number, a C++ pointer is
    a \<open>nat option\<close> (\<open>None\<close> is \<open>nullptr\<close>). Every \<open>rhi->new...\<close> and
    \<open>newCompatibleRenderPassDescriptor\<close> call takes the next handle, so the counter
    \<open>allocs\<close> is the number of creation calls made so far; every \<open>delete\<close> of a
    non-null pointer removes the object and is recorded in \<open>frees\<close>.
  \<^item> \<open>Q_ASSERT\<close> is modelled as checked: a failed assertion ends the call with
    \<open>Inl AssertionFailed\<close>. Reading or writing a \<open>std::array\<close> outside its bounds
    ends the call with \<open>Inl OutOfBounds\<close>, dereferencing a null or dead pointer with
    \<open>Inl NullDereference\<close>.
  \<^item> \<open>quint8\<close> and \<open>quint32\<close> are \<open>8 word\<close> and \<open>32 word\<close>; light indices and
    container sizes are \<open>nat\<close>. \<open>QSize\<close> is a pair of \<open>int\<close>, built from a
    \<open>quint32\<close> by the conversion to \<open>int\<close> (\<open>sint\<close>).
  \<^item> \<open>setName\<close> calls only label objects for diagnostics and are left out.
\<close>

subsection \<open>Data model\<close>

datatype error = AssertionFailed | OutOfBounds | NullDereference

datatype ShadowMapModes = VSM | CUBE

text \<open>
  Modelled from the spec: \<open>QSSGRenderLight::Type\<close> and the fields of
  \<open>QSSGShaderLight\<close> are declared in headers that are not among the sources; the spec
  lists the light categories (directional, point, spot), the shadow flag and the requested
  resolution.
\<close>

datatype LightType = DirectionalLight | PointLight | SpotLight

record QSSGShaderLight =
  ltype :: LightType
  shadows :: bool
  m_shadowMapRes :: "32 word"

type_synonym QSize = "int \<times> int"

definition QSize :: "32 word \<Rightarrow> 32 word \<Rightarrow> QSize" where
  "QSize w h = (sint w, sint h)"

datatype Format = R16F | R16

datatype Flag = RenderTarget | CubeMap | TextureArray

datatype QRhiResource =
    QRhiTexture Format QSize "Flag list" nat
  | QRhiRenderBuffer QSize
  | QRhiTextureRenderTarget "(nat option \<times> nat) list" "nat option" "nat option"
  | QRhiRenderPassDescriptor

datatype warning =
    FailedShadowMapTexture QSize
  | FailedDepthStencilBuffer QSize
  | FailedRenderTarget
  | CubemapNotBlurred

text \<open>
  The device: which format it supports, its \<open>MaxColorAttachments\<close> limit, and for each
  handle whether \<open>create()\<close> of that object succeeds.
\<close>

record QRhi =
  isR16FSupported :: bool
  maxColorAttachments :: int
  createSucceeds :: "nat \<Rightarrow> bool"

text \<open>
  The members of a \<open>QSSGShadowMapEntry\<close>, as the source file reads and writes them
  (the class declaration is in a header that is not among the sources).
\<close>

record QSSGShadowMapEntry =
  m_lightIndex :: nat
  m_shadowMapMode :: ShadowMapModes
  m_rhiDepthTextureArray :: "nat option"
  m_rhiDepthCopy :: "nat option"
  m_rhiDepthCube :: "nat option"
  m_rhiCubeCopy :: "nat option"
  m_rhiDepthStencil :: "nat option"
  m_rhiRenderTargets :: "nat option list"
  m_rhiRenderPassDesc :: "nat option"
  m_rhiBlurRenderTarget0 :: "nat option"
  m_rhiBlurRenderTarget1 :: "nat option"
  m_rhiBlurRenderPassDesc :: "nat option"
  m_depthArrayIndex :: "32 word"

text \<open>
  The state the functions of the file work on: the device pointer
  (\<open>m_context.rhiContext()->rhi()\<close>), the store of GPU objects with its two counters,
  the function-local \<open>static bool warned\<close> of \<open>addCubeShadowMap\<close> with the log of
  \<open>qWarning\<close>, and the two members of \<open>QSSGRenderShadowMap\<close>: the entry list and
  the hash from texture size to shared depth texture array.
\<close>

record state =
  rhi :: "QRhi option"
  heap :: "nat \<rightharpoonup> QRhiResource"
  allocs :: nat
  frees :: "nat list"
  warned :: bool
  warnings :: "warning list"
  m_shadowMapList :: "QSSGShadowMapEntry list"
  m_depthTextureArrays :: "(QSize \<times> nat) list"

subsection \<open>Store primitives\<close>

definition rhi_new :: "QRhiResource \<Rightarrow> state \<Rightarrow> nat \<times> state" where
  "rhi_new obj s = (allocs s, s\<lparr>heap := (heap s)(allocs s \<mapsto> obj), allocs := Suc (allocs s)\<rparr>)"

definition rhi_delete :: "nat option \<Rightarrow> state \<Rightarrow> state" where
  "rhi_delete p s =
     (case p of
        None \<Rightarrow> s
      | Some h \<Rightarrow> s\<lparr>heap := (heap s)(h := None), frees := frees s @ [h]\<rparr>)"

definition qWarning :: "warning \<Rightarrow> state \<Rightarrow> state" where
  "qWarning w s = s\<lparr>warnings := warnings s @ [w]\<rparr>"

definition setArraySize :: "nat \<Rightarrow> nat \<Rightarrow> state \<Rightarrow> state" where
  "setArraySize t n s =
     (case heap s t of
        Some (QRhiTexture f sz fl _) \<Rightarrow> s\<lparr>heap := (heap s)(t \<mapsto> QRhiTexture f sz fl n)\<rparr>
      | _ \<Rightarrow> s)"

definition setRenderPassDescriptor :: "nat \<Rightarrow> nat option \<Rightarrow> state \<Rightarrow> state" where
  "setRenderPassDescriptor rt rp s =
     (case heap s rt of
        Some (QRhiTextureRenderTarget atts ds _) \<Rightarrow>
          s\<lparr>heap := (heap s)(rt \<mapsto> QRhiTextureRenderTarget atts ds rp)\<rparr>
      | _ \<Rightarrow> s)"

definition newCompatibleRenderPassDescriptor :: "state \<Rightarrow> nat \<times> state" where
  "newCompatibleRenderPassDescriptor s = rhi_new QRhiRenderPassDescriptor s"

definition pixelSize :: "state \<Rightarrow> nat option \<Rightarrow> error + QSize" where
  "pixelSize s p =
     (case p of
        None \<Rightarrow> Inl NullDereference
      | Some h \<Rightarrow>
          (case heap s h of
             Some (QRhiTexture f sz fl n) \<Rightarrow> Inr sz
           | _ \<Rightarrow> Inl NullDereference))"

definition arraySize :: "state \<Rightarrow> nat option \<Rightarrow> error + nat" where
  "arraySize s p =
     (case p of
        None \<Rightarrow> Inl NullDereference
      | Some h \<Rightarrow>
          (case heap s h of
             Some (QRhiTexture f sz fl n) \<Rightarrow> Inr n
           | _ \<Rightarrow> Inl NullDereference))"

subsection \<open>Static helpers\<close>

definition allocateRhiShadowTexture ::
  "QRhi \<Rightarrow> Format \<Rightarrow> QSize \<Rightarrow> nat \<Rightarrow> Flag list \<Rightarrow> state \<Rightarrow> nat \<times> state" where
  "allocateRhiShadowTexture r format sz numLayers flags s =
     (let (texture, s1) = rhi_new (QRhiTexture format sz flags 0) s;
          s2 = (if TextureArray \<in> set flags then setArraySize texture numLayers s1 else s1);
          s3 = (if \<not> createSucceeds r texture
                then qWarning (FailedShadowMapTexture sz) s2 else s2)
      in (texture, s3))"

definition allocateRhiShadowRenderBuffer :: "QRhi \<Rightarrow> QSize \<Rightarrow> state \<Rightarrow> nat \<times> state" where
  "allocateRhiShadowRenderBuffer r sz s =
     (let (renderBuffer, s1) = rhi_new (QRhiRenderBuffer sz) s;
          s2 = (if \<not> createSucceeds r renderBuffer
                then qWarning (FailedDepthStencilBuffer sz) s1 else s1)
      in (renderBuffer, s2))"

definition getShadowMapTextureFormat :: "QRhi \<Rightarrow> Format" where
  "getShadowMapTextureFormat r = (if \<not> isR16FSupported r then R16 else R16F)"

text \<open>
  \<open>qCountTrailingZeroBits\<close> of QtCore on a \<open>quint32\<close>: the number of zero bits below
  the lowest set bit, 32 for 0.
\<close>

fun ctz_upto :: "nat \<Rightarrow> 32 word \<Rightarrow> nat" where
  "ctz_upto 0 v = 0"
| "ctz_upto (Suc k) v = (if bit v 0 then 0 else Suc (ctz_upto k (drop_bit 1 v)))"

definition qCountTrailingZeroBits :: "32 word \<Rightarrow> nat" where
  "qCountTrailingZeroBits v = ctz_upto 32 v"

definition mapSizeToIndex :: "32 word \<Rightarrow> error + 8 word" where
  "mapSizeToIndex mapSize =
     (if mapSize AND (mapSize - 1) \<noteq> 0 then Inl AssertionFailed
      else if \<not> 256 \<le> mapSize then Inl AssertionFailed
      else
        let index = (ucast (word_of_nat (qCountTrailingZeroBits mapSize) - 8 :: 32 word) :: 8 word)
        in if \<not> index \<le> 4 then Inl AssertionFailed else Inr index)"

definition indexToMapSize :: "8 word \<Rightarrow> error + 32 word" where
  "indexToMapSize index =
     (if \<not> index \<le> 4 then Inl AssertionFailed
      else Inr (push_bit (unat index + 8) 1))"

subsection \<open>QSSGShadowMapEntry\<close>

text \<open>
  The default constructor sets the light index to the sentinel and the mode to VSM; the
  pointer members start null (both construction paths assert \<open>!rt\<close> on a fresh entry).
\<close>

definition QSSGShadowMapEntry_default :: QSSGShadowMapEntry where
  "QSSGShadowMapEntry_default =
     \<lparr>m_lightIndex = 4294967295, m_shadowMapMode = VSM, m_rhiDepthTextureArray = None,
      m_rhiDepthCopy = None, m_rhiDepthCube = None, m_rhiCubeCopy = None,
      m_rhiDepthStencil = None, m_rhiRenderTargets = replicate 6 None,
      m_rhiRenderPassDesc = None, m_rhiBlurRenderTarget0 = None,
      m_rhiBlurRenderTarget1 = None, m_rhiBlurRenderPassDesc = None, m_depthArrayIndex = 0\<rparr>"

definition withRhiDepthMap ::
  "nat \<Rightarrow> ShadowMapModes \<Rightarrow> nat option \<Rightarrow> nat option \<Rightarrow> nat option \<Rightarrow> QSSGShadowMapEntry" where
  "withRhiDepthMap lightIdx mode textureArray depthCopy depthStencil =
     QSSGShadowMapEntry_default
       \<lparr>m_lightIndex := lightIdx, m_shadowMapMode := mode,
        m_rhiDepthTextureArray := textureArray, m_rhiDepthCopy := depthCopy,
        m_rhiDepthStencil := depthStencil\<rparr>"

definition withRhiDepthCubeMap ::
  "nat \<Rightarrow> ShadowMapModes \<Rightarrow> nat option \<Rightarrow> nat option \<Rightarrow> nat option \<Rightarrow> QSSGShadowMapEntry" where
  "withRhiDepthCubeMap lightIdx mode depthCube cubeCopy depthStencil =
     QSSGShadowMapEntry_default
       \<lparr>m_lightIndex := lightIdx, m_shadowMapMode := mode,
        m_rhiDepthCube := depthCube, m_rhiCubeCopy := cubeCopy,
        m_rhiDepthStencil := depthStencil\<rparr>"

text \<open>
  \<open>isCompatible\<close> reads the pixel size of the copy cube map (CUBE) or of the shared
  array (VSM); the second operand of \<open>||\<close> is evaluated only when the sizes agree.
\<close>

definition isCompatible ::
  "state \<Rightarrow> QSSGShadowMapEntry \<Rightarrow> QSize \<Rightarrow> 32 word \<Rightarrow> ShadowMapModes \<Rightarrow> error + bool" where
  "isCompatible s e mapSize layerIndex mapMode =
     (if mapMode \<noteq> m_shadowMapMode e then Inr False
      else
        (case mapMode of
           CUBE \<Rightarrow>
             (case pixelSize s (m_rhiCubeCopy e) of
                Inl x \<Rightarrow> Inl x
              | Inr ps \<Rightarrow> if mapSize \<noteq> ps then Inr False else Inr True)
         | VSM \<Rightarrow>
             (case pixelSize s (m_rhiDepthTextureArray e) of
                Inl x \<Rightarrow> Inl x
              | Inr ps \<Rightarrow>
                  if mapSize \<noteq> ps then Inr False
                  else
                    (case arraySize s (m_rhiDepthTextureArray e) of
                       Inl x \<Rightarrow> Inl x
                     | Inr n \<Rightarrow> if sint layerIndex \<ge> int n then Inr False else Inr True))))"

definition qDeleteAll :: "nat option list \<Rightarrow> state \<Rightarrow> state" where
  "qDeleteAll ps s = fold rhi_delete ps s"

definition destroyRhiResources :: "QSSGShadowMapEntry \<Rightarrow> state \<Rightarrow> QSSGShadowMapEntry \<times> state" where
  "destroyRhiResources e s =
     (let e1 = e\<lparr>m_rhiDepthTextureArray := None\<rparr>;
          s1 = rhi_delete (m_rhiDepthCopy e1) s;
          e2 = e1\<lparr>m_rhiDepthCopy := None\<rparr>;
          s2 = rhi_delete (m_rhiDepthCube e2) s1;
          e3 = e2\<lparr>m_rhiDepthCube := None\<rparr>;
          s3 = rhi_delete (m_rhiCubeCopy e3) s2;
          e4 = e3\<lparr>m_rhiCubeCopy := None\<rparr>;
          s4 = rhi_delete (m_rhiDepthStencil e4) s3;
          e5 = e4\<lparr>m_rhiDepthStencil := None\<rparr>;
          s5 = qDeleteAll (m_rhiRenderTargets e5) s4;
          e6 = e5\<lparr>m_rhiRenderTargets := map (\<lambda>_. None) (m_rhiRenderTargets e5)\<rparr>;
          s6 = rhi_delete (m_rhiRenderPassDesc e6) s5;
          e7 = e6\<lparr>m_rhiRenderPassDesc := None\<rparr>;
          s7 = rhi_delete (m_rhiBlurRenderTarget0 e7) s6;
          e8 = e7\<lparr>m_rhiBlurRenderTarget0 := None\<rparr>;
          s8 = rhi_delete (m_rhiBlurRenderTarget1 e8) s7;
          e9 = e8\<lparr>m_rhiBlurRenderTarget1 := None\<rparr>;
          s9 = rhi_delete (m_rhiBlurRenderPassDesc e9) s8;
          e10 = e9\<lparr>m_rhiBlurRenderPassDesc := None\<rparr>
      in (e10, s9))"

subsection \<open>QSSGRenderShadowMap\<close>

text \<open>
  \<open>shadowMapEntry\<close> returns the first entry of the list with the given light index
  (its assertion \<open>lightIdx >= 0\<close> holds for every \<open>nat\<close>).
\<close>

definition shadowMapEntry :: "state \<Rightarrow> nat \<Rightarrow> QSSGShadowMapEntry option" where
  "shadowMapEntry s lightIdx = find (\<lambda>e. m_lightIndex e = lightIdx) (m_shadowMapList s)"

text \<open>
  Modelled from the spec: \<open>shadowMapEntryCount\<close> is defined in the header, which is
  not among the sources; the spec calls it the current Entry count.
\<close>

definition shadowMapEntryCount :: "state \<Rightarrow> nat" where
  "shadowMapEntryCount s = length (m_shadowMapList s)"

text \<open>
  The range-for over the entries: each entry is destroyed in place, in list order.
\<close>

fun destroyEntries :: "QSSGShadowMapEntry list \<Rightarrow> state \<Rightarrow> QSSGShadowMapEntry list \<times> state" where
  "destroyEntries [] s = ([], s)"
| "destroyEntries (entry # rest) s =
     (let (entry', s1) = destroyRhiResources entry s;
          (rest', s2) = destroyEntries rest s1
      in (entry' # rest', s2))"

definition releaseCachedResources :: "state \<Rightarrow> state" where
  "releaseCachedResources s =
     (let (entries, s1) = destroyEntries (m_shadowMapList s) s;
          s2 = s1\<lparr>m_shadowMapList := entries\<rparr>;
          s3 = qDeleteAll (map (\<lambda>(k, textureArray). Some textureArray) (m_depthTextureArrays s2)) s2
      in s3\<lparr>m_depthTextureArrays := [], m_shadowMapList := []\<rparr>)"

text \<open>The destructor of the registry only calls \<open>releaseCachedResources\<close>.\<close>

definition QSSGRenderShadowMap_destructor :: "state \<Rightarrow> state" where
  "QSSGRenderShadowMap_destructor s = releaseCachedResources s"

text \<open>
  The source writes the mode of a light three times with the same expression:
  \<^verbatim>\<open>(light->type != DirectionalLight) ? CUBE : VSM\<close>.
\<close>

definition lightMapMode :: "QSSGShaderLight \<Rightarrow> ShadowMapModes" where
  "lightMapMode shaderLight = (if ltype shaderLight \<noteq> DirectionalLight then CUBE else VSM)"

text \<open>
  \<open>QSSGRenderTextureCubeFaces\<close>: the six cube faces; \<open>quint8(face)\<close> runs from 0 to 5.
\<close>

definition QSSGRenderTextureCubeFaces :: "nat list" where
  "QSSGRenderTextureCubeFaces = [0, 1, 2, 3, 4, 5]"

text \<open>
  \<open>addDirectionalShadowMap\<close>. The source pushes the new entry on the list and fills it
  through \<open>pEntry\<close>; here the entry is filled first and appended last (nothing reads the
  list in between). The returned pointer is the last entry of the list.
\<close>

definition addDirectionalShadowMap :: "nat \<Rightarrow> QSize \<Rightarrow> 32 word \<Rightarrow> state \<Rightarrow> error + state" where
  "addDirectionalShadowMap lightIdx sz layerIndex s =
     (case rhi s of
        None \<Rightarrow> Inl AssertionFailed
      | Some r \<Rightarrow>
          if shadowMapEntry s lightIdx \<noteq> None then Inl AssertionFailed
          else
            let rhiFormat = getShadowMapTextureFormat r;
                texture = map_of (m_depthTextureArrays s) sz
            in
              if texture = None then Inl AssertionFailed
              else
                let (depthCopy, s1) = allocateRhiShadowTexture r rhiFormat sz 0 [RenderTarget] s;
                    (depthStencil, s2) = allocateRhiShadowRenderBuffer r sz s1;
                    e = withRhiDepthMap lightIdx VSM texture (Some depthCopy) (Some depthStencil)
                in
                  if m_rhiRenderTargets e ! 0 \<noteq> None then Inl AssertionFailed
                  else
                    let (rt, s3) = rhi_new (QRhiTextureRenderTarget
                                      [(m_rhiDepthTextureArray e, unat layerIndex)]
                                      (m_rhiDepthStencil e) None) s2;
                        (rp, s4) = (if m_rhiRenderPassDesc e = None
                                    then (let (d, s') = newCompatibleRenderPassDescriptor s3
                                          in (Some d, s'))
                                    else (m_rhiRenderPassDesc e, s3));
                        s5 = setRenderPassDescriptor rt rp s4;
                        s6 = (if \<not> createSucceeds r rt then qWarning FailedRenderTarget s5 else s5);
                        (blur0, s7) = rhi_new (QRhiTextureRenderTarget
                                         [(m_rhiDepthCopy e, 0)] None None) s6;
                        (blurRp, s8) = newCompatibleRenderPassDescriptor s7;
                        s9 = setRenderPassDescriptor blur0 (Some blurRp) s8;
                        (blur1, s10) = rhi_new (QRhiTextureRenderTarget
                                          [(m_rhiDepthTextureArray e, unat layerIndex)] None None) s9;
                        s11 = setRenderPassDescriptor blur1 (Some blurRp) s10;
                        e' = e\<lparr>m_rhiRenderTargets := (m_rhiRenderTargets e)[0 := Some rt],
                               m_rhiRenderPassDesc := rp,
                               m_rhiBlurRenderTarget0 := Some blur0,
                               m_rhiBlurRenderPassDesc := Some blurRp,
                               m_rhiBlurRenderTarget1 := Some blur1,
                               m_lightIndex := lightIdx,
                               m_depthArrayIndex := layerIndex\<rparr>
                    in Inr (s11\<lparr>m_shadowMapList := m_shadowMapList s11 @ [e']\<rparr>))"

text \<open>The loop of \<open>addCubeShadowMap\<close> over the six faces.\<close>

fun addCubeFaces ::
  "QRhi \<Rightarrow> nat list \<Rightarrow> QSSGShadowMapEntry \<Rightarrow> state \<Rightarrow> error + (QSSGShadowMapEntry \<times> state)" where
  "addCubeFaces r [] e s = Inr (e, s)"
| "addCubeFaces r (face # faces) e s =
     (if \<not> face < length (m_rhiRenderTargets e) then Inl OutOfBounds
      else if m_rhiRenderTargets e ! face \<noteq> None then Inl AssertionFailed
      else
        let (rt, s1) = rhi_new (QRhiTextureRenderTarget [(m_rhiDepthCube e, face)]
                          (m_rhiDepthStencil e) None) s;
            (rp, s2) = (if m_rhiRenderPassDesc e = None
                        then (let (d, s') = newCompatibleRenderPassDescriptor s1 in (Some d, s'))
                        else (m_rhiRenderPassDesc e, s1));
            s3 = setRenderPassDescriptor rt rp s2;
            s4 = (if \<not> createSucceeds r rt then qWarning FailedRenderTarget s3 else s3);
            e' = e\<lparr>m_rhiRenderTargets := (m_rhiRenderTargets e)[face := Some rt],
                   m_rhiRenderPassDesc := rp\<rparr>
        in addCubeFaces r faces e' s4)"

text \<open>The two blur targets of a cube entry, or the warning that is given once.\<close>

definition addCubeBlur :: "QRhi \<Rightarrow> QSSGShadowMapEntry \<Rightarrow> state \<Rightarrow> QSSGShadowMapEntry \<times> state" where
  "addCubeBlur r e s =
     (if maxColorAttachments r \<ge> 6 then
        let (blur0, s1) = rhi_new (QRhiTextureRenderTarget
                             (map (\<lambda>face. (m_rhiCubeCopy e, face)) QSSGRenderTextureCubeFaces)
                             None None) s;
            (blurRp, s2) = (if m_rhiBlurRenderPassDesc e = None
                            then (let (d, s') = newCompatibleRenderPassDescriptor s1 in (Some d, s'))
                            else (m_rhiBlurRenderPassDesc e, s1));
            s3 = setRenderPassDescriptor blur0 blurRp s2;
            (blur1, s4) = rhi_new (QRhiTextureRenderTarget
                             (map (\<lambda>face. (m_rhiDepthCube e, face)) QSSGRenderTextureCubeFaces)
                             None None) s3;
            s5 = setRenderPassDescriptor blur1 blurRp s4
        in (e\<lparr>m_rhiBlurRenderTarget0 := Some blur0, m_rhiBlurRenderPassDesc := blurRp,
               m_rhiBlurRenderTarget1 := Some blur1\<rparr>, s5)
      else if \<not> warned s then (e, qWarning CubemapNotBlurred (s\<lparr>warned := True\<rparr>))
      else (e, s))"

definition addCubeShadowMap :: "nat \<Rightarrow> QSize \<Rightarrow> state \<Rightarrow> error + state" where
  "addCubeShadowMap lightIdx sz s =
     (case rhi s of
        None \<Rightarrow> Inl AssertionFailed
      | Some r \<Rightarrow>
          if shadowMapEntry s lightIdx \<noteq> None then Inl AssertionFailed
          else
            let rhiFormat = getShadowMapTextureFormat r;
                (depthMap, s1) = allocateRhiShadowTexture r rhiFormat sz 0 [RenderTarget, CubeMap] s;
                (depthCopy, s2) = allocateRhiShadowTexture r rhiFormat sz 0 [RenderTarget, CubeMap] s1;
                (depthStencil, s3) = allocateRhiShadowRenderBuffer r sz s2;
                e = withRhiDepthCubeMap lightIdx CUBE (Some depthMap) (Some depthCopy)
                      (Some depthStencil)
            in
              (case addCubeFaces r QSSGRenderTextureCubeFaces e s3 of
                 Inl x \<Rightarrow> Inl x
               | Inr (e1, s4) \<Rightarrow>
                   let (e2, s5) = addCubeBlur r e1 s4
                   in Inr (s5\<lparr>m_shadowMapList := m_shadowMapList s5 @ [e2]\<rparr>)))"

text \<open>
  The first loop of \<open>addShadowMaps\<close>: it counts the shadow-casting lights and gives each
  shadow-casting VSM light the running count of its resolution bucket as candidate layer
  index. \<open>textureSizeLayerCount\<close> is a \<open>std::array<quint8, 4>\<close>.
\<close>

fun countLayers ::
  "QSSGShaderLight list \<Rightarrow> nat \<Rightarrow> nat \<times> 8 word list \<times> 8 word list \<Rightarrow>
     error + (nat \<times> 8 word list \<times> 8 word list)" where
  "countLayers [] lightIndex acc = Inr acc"
| "countLayers (shaderLight # rest) lightIndex
       (numShadows, textureSizeLayerCount, lightIndexToLayerIndex) =
     (let mapMode = lightMapMode shaderLight;
          numShadows' = (if shadows shaderLight then numShadows + 1 else numShadows)
      in
        if \<not> shadows shaderLight \<or> mapMode = CUBE
        then countLayers rest (Suc lightIndex)
               (numShadows', textureSizeLayerCount, lightIndexToLayerIndex)
        else
          let mapSize = m_shadowMapRes shaderLight in
            (case mapSizeToIndex mapSize of
               Inl x \<Rightarrow> Inl x
             | Inr idx \<Rightarrow>
                 if \<not> unat idx < length textureSizeLayerCount then Inl OutOfBounds
                 else
                   let layerIndex = textureSizeLayerCount ! unat idx in
                     countLayers rest (Suc lightIndex)
                       (numShadows',
                        textureSizeLayerCount[unat idx := layerIndex + 1],
                        lightIndexToLayerIndex[lightIndex := layerIndex])))"

text \<open>
  The second loop: \<open>True\<close> at the first shadow-casting light without an entry or with an
  incompatible one (the \<open>break\<close>), \<open>False\<close> when the loop runs to its end.
\<close>

fun checkLights ::
  "QSSGShaderLight list \<Rightarrow> nat \<Rightarrow> 8 word list \<Rightarrow> state \<Rightarrow> error + bool" where
  "checkLights [] lightIndex lightIndexToLayerIndex s = Inr False"
| "checkLights (shaderLight # rest) lightIndex lightIndexToLayerIndex s =
     (if \<not> shadows shaderLight then checkLights rest (Suc lightIndex) lightIndexToLayerIndex s
      else
        (case shadowMapEntry s lightIndex of
           None \<Rightarrow> Inr True
         | Some pEntry \<Rightarrow>
             let mapMode = lightMapMode shaderLight;
                 mapSize = m_shadowMapRes shaderLight;
                 layerIndex = (if mapMode = VSM
                               then (ucast (lightIndexToLayerIndex ! lightIndex) :: 32 word)
                               else 0)
             in
               (case isCompatible s pEntry (QSize mapSize mapSize) layerIndex mapMode of
                  Inl x \<Rightarrow> Inl x
                | Inr c \<Rightarrow>
                    if \<not> c then Inr True
                    else checkLights rest (Suc lightIndex) lightIndexToLayerIndex s)))"

definition needsRebuild ::
  "QSSGShaderLight list \<Rightarrow> nat \<Rightarrow> 8 word list \<Rightarrow> state \<Rightarrow> error + bool" where
  "needsRebuild renderableLights numShadows lightIndexToLayerIndex s =
     (if numShadows \<noteq> shadowMapEntryCount s then Inr True
      else checkLights renderableLights 0 lightIndexToLayerIndex s)"

text \<open>The third loop: one shared texture array for each bucket with a non-zero count.\<close>

fun createTextureArrays :: "QRhi \<Rightarrow> 8 word list \<Rightarrow> nat \<Rightarrow> state \<Rightarrow> error + state" where
  "createTextureArrays r [] i s = Inr s"
| "createTextureArrays r (c # rest) i s =
     (let numLayers = unat c in
        if numLayers = 0 then createTextureArrays r rest (Suc i) s
        else
          (case indexToMapSize (word_of_nat i) of
             Inl x \<Rightarrow> Inl x
           | Inr mapSize \<Rightarrow>
               let texSize = QSize mapSize mapSize;
                   rhiFormat = getShadowMapTextureFormat r;
                   (texture, s1) = allocateRhiShadowTexture r rhiFormat texSize numLayers
                                     [RenderTarget, TextureArray] s;
                   s2 = s1\<lparr>m_depthTextureArrays :=
                             AList.update texSize texture (m_depthTextureArrays s1)\<rparr>
               in createTextureArrays r rest (Suc i) s2))"

text \<open>\<open>QVarLengthArray::value(i)\<close>: the element, or 0 outside the array.\<close>

definition value_at :: "8 word list \<Rightarrow> nat \<Rightarrow> 8 word" where
  "value_at xs i = (if i < length xs then xs ! i else 0)"

text \<open>The fourth loop: one entry for each shadow-casting light, in list order.\<close>

fun setupRenderTargets ::
  "QSSGShaderLight list \<Rightarrow> nat \<Rightarrow> 8 word list \<Rightarrow> state \<Rightarrow> error + state" where
  "setupRenderTargets [] lightIdx lightIndexToLayerIndex s = Inr s"
| "setupRenderTargets (shaderLight # rest) lightIdx lightIndexToLayerIndex s =
     (if \<not> shadows shaderLight then setupRenderTargets rest (Suc lightIdx) lightIndexToLayerIndex s
      else
        let mapSize = QSize (m_shadowMapRes shaderLight) (m_shadowMapRes shaderLight);
            mapMode = lightMapMode shaderLight
        in
          (case mapMode of
             VSM \<Rightarrow>
               (let layerIndex = (ucast (value_at lightIndexToLayerIndex lightIdx) :: 32 word) in
                  (case addDirectionalShadowMap lightIdx mapSize layerIndex s of
                     Inl x \<Rightarrow> Inl x
                   | Inr s' \<Rightarrow> setupRenderTargets rest (Suc lightIdx) lightIndexToLayerIndex s'))
           | CUBE \<Rightarrow>
               (case addCubeShadowMap lightIdx mapSize s of
                  Inl x \<Rightarrow> Inl x
                | Inr s' \<Rightarrow> setupRenderTargets rest (Suc lightIdx) lightIndexToLayerIndex s')))"

text \<open>
  \<open>scanLights\<close> is the first loop from its initial values: no shadows, four zero
  counters, and \<open>lightIndexToLayerIndex\<close> resized to the number of lights (the slots the
  loop does not write are never read).
\<close>

definition scanLights ::
  "QSSGShaderLight list \<Rightarrow> error + (nat \<times> 8 word list \<times> 8 word list)" where
  "scanLights renderableLights =
     countLayers renderableLights 0
       (0, replicate 4 0, replicate (length renderableLights) 0)"

definition addShadowMaps :: "QSSGShaderLight list \<Rightarrow> state \<Rightarrow> error + state" where
  "addShadowMaps renderableLights s =
     (case rhi s of
        None \<Rightarrow> Inr s
      | Some r \<Rightarrow>
          (case scanLights renderableLights of
             Inl x \<Rightarrow> Inl x
           | Inr (numShadows, textureSizeLayerCount, lightIndexToLayerIndex) \<Rightarrow>
               (case needsRebuild renderableLights numShadows lightIndexToLayerIndex s of
                  Inl x \<Rightarrow> Inl x
                | Inr rebuild \<Rightarrow>
                    if \<not> rebuild then Inr s
                    else
                      let s1 = releaseCachedResources s in
                        (case createTextureArrays r textureSizeLayerCount 0 s1 of
                           Inl x \<Rightarrow> Inl x
                         | Inr s2 \<Rightarrow>
                             setupRenderTargets renderableLights 0 lightIndexToLayerIndex s2))))"

subsection \<open>The rebuild decision, in the words of the spec\<close>



text \<open>
  The candidate of the light at index \<open>i\<close>: its square size, its candidate layer index
  (0 for a CUBE light) and its mode.
\<close>

definition candidateSize :: "QSSGShaderLight \<Rightarrow> QSize" where
  "candidateSize l = QSize (m_shadowMapRes l) (m_shadowMapRes l)"






text \<open>The rebuild that \<open>addShadowMaps\<close> runs once it has decided for one.\<close>

definition rebuild ::
  "QRhi \<Rightarrow> QSSGShaderLight list \<Rightarrow> 8 word list \<Rightarrow> 8 word list \<Rightarrow> state \<Rightarrow> error + state" where
  "rebuild r lights textureSizeLayerCount lightIndexToLayerIndex s =
     (case createTextureArrays r textureSizeLayerCount 0 (releaseCachedResources s) of
        Inl x \<Rightarrow> Inl x
      | Inr s2 \<Rightarrow> setupRenderTargets lights 0 lightIndexToLayerIndex s2)"

subsection \<open>Buckets and ranks\<close>

text \<open>
  A light gets a layer of a shared array when it casts a shadow and its mode is VSM, that
  is, when it is a shadow-casting directional light.
\<close>

definition castsVsm :: "QSSGShaderLight \<Rightarrow> bool" where
  "castsVsm l = (shadows l \<and> ltype l = DirectionalLight)"

text \<open>The number of such lights in a list that request the resolution \<open>res\<close>.\<close>

definition bucketCount :: "QSSGShaderLight list \<Rightarrow> 32 word \<Rightarrow> nat" where
  "bucketCount lights res =
     length (filter (\<lambda>l. castsVsm l \<and> m_shadowMapRes l = res) lights)"





subsection \<open>The entries the two construction paths build\<close>

text \<open>
  The entry \<open>addDirectionalShadowMap\<close> appends when the creation counter stands at
  \<open>a\<close>: its objects take the next seven handles, in the order of the source (depth
  copy, depth-stencil buffer, main render target, render-pass descriptor, blur-X target,
  blur render-pass descriptor, blur-Y target).
\<close>

definition vsmEntry :: "nat \<Rightarrow> nat \<Rightarrow> nat \<Rightarrow> 32 word \<Rightarrow> QSSGShadowMapEntry" where
  "vsmEntry a lightIdx textureArray layerIndex =
     \<lparr>m_lightIndex = lightIdx, m_shadowMapMode = VSM,
      m_rhiDepthTextureArray = Some textureArray,
      m_rhiDepthCopy = Some a, m_rhiDepthCube = None, m_rhiCubeCopy = None,
      m_rhiDepthStencil = Some (a + 1),
      m_rhiRenderTargets = [Some (a + 2), None, None, None, None, None],
      m_rhiRenderPassDesc = Some (a + 3), m_rhiBlurRenderTarget0 = Some (a + 4),
      m_rhiBlurRenderTarget1 = Some (a + 6), m_rhiBlurRenderPassDesc = Some (a + 5),
      m_depthArrayIndex = layerIndex\<rparr>"

text \<open>
  The entry \<open>addCubeShadowMap\<close> appends when the creation counter stands at \<open>a\<close>:
  depth cube map, cube copy, depth-stencil buffer, the first face target, the render-pass
  descriptor, the other five face targets, and, when the device has at least six colour
  attachments (\<open>blur\<close>), blur-X target, blur render-pass descriptor and blur-Y target.
\<close>

definition cubeEntry :: "nat \<Rightarrow> nat \<Rightarrow> bool \<Rightarrow> QSSGShadowMapEntry" where
  "cubeEntry a lightIdx blur =
     \<lparr>m_lightIndex = lightIdx, m_shadowMapMode = CUBE,
      m_rhiDepthTextureArray = None,
      m_rhiDepthCopy = None, m_rhiDepthCube = Some a, m_rhiCubeCopy = Some (a + 1),
      m_rhiDepthStencil = Some (a + 2),
      m_rhiRenderTargets =
        [Some (a + 3), Some (a + 5), Some (a + 6), Some (a + 7), Some (a + 8), Some (a + 9)],
      m_rhiRenderPassDesc = Some (a + 4),
      m_rhiBlurRenderTarget0 = (if blur then Some (a + 10) else None),
      m_rhiBlurRenderTarget1 = (if blur then Some (a + 12) else None),
      m_rhiBlurRenderPassDesc = (if blur then Some (a + 11) else None),
      m_depthArrayIndex = 0\<rparr>"

text \<open>
  The objects the two paths create, in the order of their creation, when the creation
  counter stands at \<open>a\<close>. For a VSM entry: the depth copy, the depth-stencil buffer, the
  main render target on layer \<open>layer\<close> of the shared array \<open>textureArray\<close>, its
  render-pass descriptor, the blur-X target on the depth copy, the blur render-pass
  descriptor, and the blur-Y target on the same layer of the shared array.
\<close>

definition vsmObjects :: "Format \<Rightarrow> QSize \<Rightarrow> nat \<Rightarrow> nat \<Rightarrow> nat \<Rightarrow> QRhiResource list" where
  "vsmObjects f sz textureArray layer a =
     [QRhiTexture f sz [RenderTarget] 0,
      QRhiRenderBuffer sz,
      QRhiTextureRenderTarget [(Some textureArray, layer)] (Some (a + 1)) (Some (a + 3)),
      QRhiRenderPassDescriptor,
      QRhiTextureRenderTarget [(Some a, 0)] None (Some (a + 5)),
      QRhiRenderPassDescriptor,
      QRhiTextureRenderTarget [(Some textureArray, layer)] None (Some (a + 5))]"

text \<open>
  For a CUBE entry: the depth cube map, the cube copy, the depth-stencil buffer, the
  render target of face 0 of the depth cube map, the render-pass descriptor, the render
  targets of the faces 1 to 5, and, when the device has at least six colour attachments
  (\<open>blur\<close>), the blur-X target on the six faces of the cube copy, the blur render-pass
  descriptor and the blur-Y target on the six faces of the depth cube map.
\<close>

definition cubeObjects :: "Format \<Rightarrow> QSize \<Rightarrow> bool \<Rightarrow> nat \<Rightarrow> QRhiResource list" where
  "cubeObjects f sz blur a =
     [QRhiTexture f sz [RenderTarget, CubeMap] 0,
      QRhiTexture f sz [RenderTarget, CubeMap] 0,
      QRhiRenderBuffer sz,
      QRhiTextureRenderTarget [(Some a, 0)] (Some (a + 2)) (Some (a + 4)),
      QRhiRenderPassDescriptor,
      QRhiTextureRenderTarget [(Some a, 1)] (Some (a + 2)) (Some (a + 4)),
      QRhiTextureRenderTarget [(Some a, 2)] (Some (a + 2)) (Some (a + 4)),
      QRhiTextureRenderTarget [(Some a, 3)] (Some (a + 2)) (Some (a + 4)),
      QRhiTextureRenderTarget [(Some a, 4)] (Some (a + 2)) (Some (a + 4)),
      QRhiTextureRenderTarget [(Some a, 5)] (Some (a + 2)) (Some (a + 4))]
     @ (if blur
        then [QRhiTextureRenderTarget (map (\<lambda>face. (Some (a + 1), face)) [0, 1, 2, 3, 4, 5])
                None (Some (a + 11)),
              QRhiRenderPassDescriptor,
              QRhiTextureRenderTarget (map (\<lambda>face. (Some a, face)) [0, 1, 2, 3, 4, 5])
                None (Some (a + 11))]
        else [])"

text \<open>The store holds the objects \<open>objs\<close> at the handles \<open>a\<close>, \<open>a + 1\<close>, ...\<close>

definition storedAt :: "state \<Rightarrow> nat \<Rightarrow> QRhiResource list \<Rightarrow> bool" where
  "storedAt s a objs = (map (heap s) [a ..< a + length objs] = map Some objs)"

subsection \<open>The shared arrays a rebuild allocates\<close>

text \<open>The square size of bucket \<open>b\<close>: 256 for bucket 0, doubling with each bucket.\<close>

definition bucketSize :: "nat \<Rightarrow> QSize" where
  "bucketSize b = QSize (push_bit (b + 8) 1) (push_bit (b + 8) 1)"

text \<open>
  The arrays asked for by the layer counts, in bucket order, from bucket \<open>i\<close> on: one
  (size, layer count) for each bucket whose count is not zero.
\<close>

fun arraySpecs :: "8 word list \<Rightarrow> nat \<Rightarrow> (QSize \<times> nat) list" where
  "arraySpecs [] i = []"
| "arraySpecs (c # cs) i =
     (if unat c = 0 then arraySpecs cs (Suc i)
      else (bucketSize i, unat c) # arraySpecs cs (Suc i))"

subsection \<open>What a rebuild leaves behind\<close>

text \<open>
  A later state extends an earlier one when device, deleted handles and shared arrays are
  the same and every object created before is unchanged.
\<close>

definition extends :: "state \<Rightarrow> state \<Rightarrow> bool" where
  "extends s s' =
     (rhi s' = rhi s \<and> frees s' = frees s \<and>
      m_depthTextureArrays s' = m_depthTextureArrays s \<and>
      allocs s \<le> allocs s' \<and> (\<forall>h. h < allocs s \<longrightarrow> heap s' h = heap s h))"

text \<open>
  The entry \<open>e\<close> is the one the fourth loop builds for the light \<open>l\<close> at index
  \<open>j\<close>: for a directional light the VSM entry on the shared array of its size, which was
  created before the objects of the entry, with the candidate layer index of the light; for
  any other light the CUBE entry of the size of the light. The objects of the entry are in
  the store.
\<close>

definition builtFor ::
  "QRhi \<Rightarrow> state \<Rightarrow> 8 word list \<Rightarrow> nat \<times> QSSGShaderLight \<Rightarrow> QSSGShadowMapEntry \<Rightarrow> bool" where
  "builtFor r s l2l jl e =
     (case jl of
        (j, l) \<Rightarrow>
          if ltype l = DirectionalLight
          then (\<exists>a arr. e = vsmEntry a j arr (ucast (l2l ! j)) \<and>
                  map_of (m_depthTextureArrays s) (candidateSize l) = Some arr \<and> arr < a \<and>
                  a + 7 \<le> allocs s \<and>
                  storedAt s a (vsmObjects (getShadowMapTextureFormat r) (candidateSize l) arr
                                  (unat (l2l ! j)) a))
          else (\<exists>a. e = cubeEntry a j (maxColorAttachments r \<ge> 6) \<and>
                  a + (if maxColorAttachments r \<ge> 6 then 13 else 10) \<le> allocs s \<and>
                  storedAt s a (cubeObjects (getShadowMapTextureFormat r) (candidateSize l)
                                  (maxColorAttachments r \<ge> 6) a)))"

text \<open>The shadow-casting lights of a list with their indices, counted from \<open>i\<close>.\<close>

definition shadowCasters :: "nat \<Rightarrow> QSSGShaderLight list \<Rightarrow> (nat \<times> QSSGShaderLight) list" where
  "shadowCasters i ls = filter (\<lambda>jl. shadows (snd jl)) (zip [i ..< i + length ls] ls)"

text \<open>Some light of the list casts a shadow through a cube map.\<close>

definition castsCube :: "QSSGShaderLight list \<Rightarrow> bool" where
  "castsCube ls = (\<exists>l \<in> set ls. shadows l \<and> ltype l \<noteq> DirectionalLight)"

subsection \<open>Example inputs\<close>

text \<open>
  A device that supports the float format and eight colour attachments and on which every
  \<open>create()\<close> succeeds, a registry that holds nothing yet, and a few lights.
\<close>

definition exampleDevice :: QRhi where
  "exampleDevice = \<lparr>isR16FSupported = True, maxColorAttachments = 8, createSucceeds = (\<lambda>_. True)\<rparr>"

definition emptyRegistry :: "QRhi \<Rightarrow> state" where
  "emptyRegistry r =
     \<lparr>rhi = Some r, heap = Map.empty, allocs = 0, frees = [], warned = False, warnings = [],
      m_shadowMapList = [], m_depthTextureArrays = []\<rparr>"


definition shadowLight :: "LightType \<Rightarrow> 32 word \<Rightarrow> QSSGShaderLight" where
  "shadowLight t res = \<lparr>ltype = t, shadows = True, m_shadowMapRes = res\<rparr>"



subsection \<open>Ownership\<close>

text \<open>
  The pointers of an entry to the objects it owns, in the order in which
  \<open>destroyRhiResources\<close> deletes them: the depth copy, the depth cube map, the cube
  copy, the depth-stencil buffer, the render targets, the render-pass descriptor, the two
  blur render targets and the blur render-pass descriptor. The shared depth texture array
  is not among them.
\<close>

definition ownedPointers :: "QSSGShadowMapEntry \<Rightarrow> nat option list" where
  "ownedPointers e =
     [m_rhiDepthCopy e, m_rhiDepthCube e, m_rhiCubeCopy e, m_rhiDepthStencil e]
     @ m_rhiRenderTargets e
     @ [m_rhiRenderPassDesc e, m_rhiBlurRenderTarget0 e, m_rhiBlurRenderTarget1 e,
        m_rhiBlurRenderPassDesc e]"

fun nonNull :: "nat option list \<Rightarrow> nat list" where
  "nonNull [] = []"
| "nonNull (None # ps) = nonNull ps"
| "nonNull (Some h # ps) = h # nonNull ps"

definition ownedHandles :: "QSSGShadowMapEntry \<Rightarrow> nat list" where
  "ownedHandles e = nonNull (ownedPointers e)"

text \<open>An entry after \<open>destroyRhiResources\<close>: every pointer member is null.\<close>

definition clearedEntry :: "QSSGShadowMapEntry \<Rightarrow> QSSGShadowMapEntry" where
  "clearedEntry e =
     e\<lparr>m_rhiDepthTextureArray := None, m_rhiDepthCopy := None, m_rhiDepthCube := None,
       m_rhiCubeCopy := None, m_rhiDepthStencil := None,
       m_rhiRenderTargets := replicate (length (m_rhiRenderTargets e)) None,
       m_rhiRenderPassDesc := None, m_rhiBlurRenderTarget0 := None,
       m_rhiBlurRenderTarget1 := None, m_rhiBlurRenderPassDesc := None\<rparr>"

text \<open>
  The handles \<open>releaseCachedResources\<close> deletes: the owned objects of every entry, in
  list order, and then every shared texture array of the registry.
\<close>

definition releasedHandles :: "state \<Rightarrow> nat list" where
  "releasedHandles s =
     concat (map ownedHandles (m_shadowMapList s)) @ map snd (m_depthTextureArrays s)"

definition exampleVsmEntry :: QSSGShadowMapEntry where
  "exampleVsmEntry =
     (withRhiDepthMap 0 VSM (Some 0) (Some 1) (Some 2))
       \<lparr>m_rhiRenderTargets := [Some 3, None, None, None, None, None],
        m_rhiRenderPassDesc := Some 4, m_rhiBlurRenderTarget0 := Some 5,
        m_rhiBlurRenderPassDesc := Some 6, m_rhiBlurRenderTarget1 := Some 7\<rparr>"

definition exampleVsmState :: state where
  "exampleVsmState =
     \<lparr>rhi = Some exampleDevice,
      heap = [0 \<mapsto> QRhiTexture R16F (512, 512) [RenderTarget, TextureArray] 1,
              1 \<mapsto> QRhiTexture R16F (512, 512) [RenderTarget] 0,
              2 \<mapsto> QRhiRenderBuffer (512, 512),
              3 \<mapsto> QRhiTextureRenderTarget [(Some 0, 0)] (Some 2) (Some 4),
              4 \<mapsto> QRhiRenderPassDescriptor,
              5 \<mapsto> QRhiTextureRenderTarget [(Some 1, 0)] None (Some 6),
              6 \<mapsto> QRhiRenderPassDescriptor,
              7 \<mapsto> QRhiTextureRenderTarget [(Some 0, 0)] None (Some 6)],
      allocs = 8, frees = [], warned = False, warnings = [],
      m_shadowMapList = [exampleVsmEntry], m_depthTextureArrays = [((512, 512), 0)]\<rparr>"

subsection \<open>Resolution buckets\<close>

lemma mapSizeToIndex_256: "mapSizeToIndex 256 = Inr 0"
  by code_simp

lemma mapSizeToIndex_512: "mapSizeToIndex 512 = Inr 1"
  by code_simp

lemma mapSizeToIndex_1024: "mapSizeToIndex 1024 = Inr 2"
  by code_simp

lemma mapSizeToIndex_2048: "mapSizeToIndex 2048 = Inr 3"
  by code_simp

lemma mapSizeToIndex_4096: "mapSizeToIndex 4096 = Inr 4"
  by code_simp

lemma indexToMapSize_values:
  "indexToMapSize 0 = Inr 256" "indexToMapSize 1 = Inr 512" "indexToMapSize 2 = Inr 1024"
  "indexToMapSize 3 = Inr 2048" "indexToMapSize 4 = Inr 4096"
  by (simp_all add: indexToMapSize_def)

text \<open>
  Claim C8. For every resolution \<open>r\<close> of 256, 512, 1024, 2048 and 4096, encoding
  \<open>r\<close> to its bucket index with \<open>mapSizeToIndex\<close> and decoding the index with
  \<open>indexToMapSize\<close> passes every assertion and gives \<open>r\<close> back.
\<close>

theorem resolution_round_trip:
  assumes "r \<in> {256, 512, 1024, 2048, 4096}"
  shows "(case mapSizeToIndex r of Inl x \<Rightarrow> Inl x | Inr i \<Rightarrow> indexToMapSize i) = Inr r"
  using assms
  by (auto simp: mapSizeToIndex_256 mapSizeToIndex_512 mapSizeToIndex_1024 mapSizeToIndex_2048
      mapSizeToIndex_4096 indexToMapSize_values)

theorem resolution_round_trip_witness:
  "(1024 :: 32 word) \<in> {256, 512, 1024, 2048, 4096} \<and>
   (case mapSizeToIndex 1024 of Inl x \<Rightarrow> Inl x | Inr i \<Rightarrow> indexToMapSize i) = Inr 1024"
  using resolution_round_trip [of 1024] by simp

subsection \<open>The layer-count array has four slots\<close>

text \<open>
  Claim C5. The resolution 4096 passes the assertions of \<open>mapSizeToIndex\<close> and has
  bucket index 4, but \<open>textureSizeLayerCount\<close> has the four slots 0 to 3: for a single
  shadow-casting directional light of resolution 4096 the first loop of
  \<open>addShadowMaps\<close> indexes the array outside its bounds.
\<close>

theorem layer_count_index_4096_out_of_bounds:
  "mapSizeToIndex 4096 = Inr 4 \<and>
   scanLights [shadowLight DirectionalLight 4096] = Inl OutOfBounds \<and>
   addShadowMaps [shadowLight DirectionalLight 4096] (emptyRegistry exampleDevice)
     = Inl OutOfBounds"
proof -
  have scan: "scanLights [shadowLight DirectionalLight 4096] = Inl OutOfBounds"
    by (simp add: scanLights_def shadowLight_def lightMapMode_def mapSizeToIndex_4096)
  show ?thesis
    by (simp add: mapSizeToIndex_4096 scan addShadowMaps_def emptyRegistry_def)
qed

subsection \<open>Releasing resources\<close>

lemma rhi_delete_simps:
  "rhi_delete None s = s"
  "rhi_delete (Some h) s = s\<lparr>heap := (heap s)(h := None), frees := frees s @ [h]\<rparr>"
  by (simp_all add: rhi_delete_def)

lemma nonNull_append [simp]: "nonNull (ps @ qs) = nonNull ps @ nonNull qs"
  by (induction ps rule: nonNull.induct) simp_all

lemma nonNull_replicate_None [simp]: "nonNull (replicate n None) = []"
  by (induction n) simp_all

lemma set_nonNull: "h \<in> set (nonNull ps) \<longleftrightarrow> Some h \<in> set ps"
  by (induction ps rule: nonNull.induct) auto

lemma fold_rhi_delete_frees:
  "frees (fold rhi_delete ps s) = frees s @ nonNull ps"
  by (induction ps arbitrary: s) (auto simp: rhi_delete_def split: option.splits)

lemma fold_rhi_delete_heap:
  "heap (fold rhi_delete ps s) h = (if h \<in> set (nonNull ps) then None else heap s h)"
  by (induction ps arbitrary: s) (auto simp: rhi_delete_def split: option.splits)

lemma fold_rhi_delete_other:
  "rhi (fold rhi_delete ps s) = rhi s"
  "allocs (fold rhi_delete ps s) = allocs s"
  "warned (fold rhi_delete ps s) = warned s"
  "warnings (fold rhi_delete ps s) = warnings s"
  "m_shadowMapList (fold rhi_delete ps s) = m_shadowMapList s"
  "m_depthTextureArrays (fold rhi_delete ps s) = m_depthTextureArrays s"
  by (induction ps arbitrary: s; simp add: rhi_delete_def split: option.splits)+

lemma destroyRhiResources_eq:
  "destroyRhiResources e s = (clearedEntry e, fold rhi_delete (ownedPointers e) s)"
  by (simp add: destroyRhiResources_def clearedEntry_def ownedPointers_def qDeleteAll_def
      Let_def map_replicate_const)


lemma destroyEntries_eq:
  "destroyEntries es s =
     (map clearedEntry es, fold rhi_delete (concat (map ownedPointers es)) s)"
  by (induction es arbitrary: s) (simp_all add: destroyRhiResources_eq)

lemma nonNull_concat: "nonNull (concat pss) = concat (map nonNull pss)"
  by (induction pss) simp_all

lemma nonNull_map_Some: "nonNull (map (\<lambda>(k, textureArray). Some textureArray) al) = map snd al"
  by (induction al) auto

lemma releaseCachedResources_eq:
  "releaseCachedResources s =
     (fold rhi_delete
        (concat (map ownedPointers (m_shadowMapList s))
         @ map (\<lambda>(k, textureArray). Some textureArray) (m_depthTextureArrays s)) s)
       \<lparr>m_depthTextureArrays := [], m_shadowMapList := []\<rparr>"
proof -
  have one: "rhi_delete p (t\<lparr>m_shadowMapList := es\<rparr>) = (rhi_delete p t)\<lparr>m_shadowMapList := es\<rparr>"
    for p t es
    by (simp add: rhi_delete_def split: option.splits)
  have "fold rhi_delete ps (t\<lparr>m_shadowMapList := es\<rparr>) = (fold rhi_delete ps t)\<lparr>m_shadowMapList := es\<rparr>"
    for ps t es
    by (induction ps arbitrary: t) (simp_all add: one)
  then show ?thesis
    by (simp add: releaseCachedResources_def destroyEntries_eq qDeleteAll_def
        fold_rhi_delete_other)
qed

lemma releaseCachedResources_fields:
  "m_shadowMapList (releaseCachedResources s) = []"
  "m_depthTextureArrays (releaseCachedResources s) = []"
  "frees (releaseCachedResources s) = frees s @ releasedHandles s"
  "allocs (releaseCachedResources s) = allocs s"
  "rhi (releaseCachedResources s) = rhi s"
  "warned (releaseCachedResources s) = warned s"
  "warnings (releaseCachedResources s) = warnings s"
  by (simp_all add: releaseCachedResources_eq fold_rhi_delete_frees fold_rhi_delete_other
      releasedHandles_def ownedHandles_def [abs_def] nonNull_concat nonNull_map_Some comp_def)

lemma releaseCachedResources_heap:
  "heap (releaseCachedResources s) h = (if h \<in> set (releasedHandles s) then None else heap s h)"
  by (simp add: releaseCachedResources_eq fold_rhi_delete_heap
      releasedHandles_def ownedHandles_def [abs_def] nonNull_concat nonNull_map_Some comp_def)

lemma releaseCachedResources_empty:
  assumes "m_shadowMapList s = []" "m_depthTextureArrays s = []"
  shows "releaseCachedResources s = s"
  using assms by (simp add: releaseCachedResources_eq)

text \<open>
  Claim C7. After \<open>releaseCachedResources\<close> the entry list and the map from size to
  shared texture array are both empty; it has deleted the owned objects of every entry and
  every shared array; a second call right after changes nothing (both stay empty and
  nothing more is deleted); and the destructor of the registry is a call of it.
\<close>

theorem releaseCachedResources_idempotent:
  "m_shadowMapList (releaseCachedResources s) = [] \<and>
   m_depthTextureArrays (releaseCachedResources s) = [] \<and>
   frees (releaseCachedResources s) = frees s @ releasedHandles s \<and>
   releaseCachedResources (releaseCachedResources s) = releaseCachedResources s \<and>
   frees (releaseCachedResources (releaseCachedResources s)) = frees (releaseCachedResources s) \<and>
   QSSGRenderShadowMap_destructor s = releaseCachedResources s"
  by (simp add: releaseCachedResources_fields releaseCachedResources_empty
      QSSGRenderShadowMap_destructor_def)

text \<open>
  Claim C10. \<open>destroyRhiResources\<close> deletes exactly the objects the entry owns (depth
  copy, depth cube map, cube copy, depth-stencil buffer, the render targets, both blur
  targets and both render-pass descriptors) and nulls every pointer member. It never
  deletes the shared depth texture array: the array pointer is only set to null, the map
  of the registry is unchanged, and an array that is not also one of the entry's own
  objects is still in the store afterwards and not among the deleted handles.
\<close>

theorem destroyRhiResources_keeps_shared_array:
  assumes "destroyRhiResources e s = (e', s')"
  shows "e' = clearedEntry e \<and>
         frees s' = frees s @ ownedHandles e \<and>
         (\<forall>h. heap s' h = (if h \<in> set (ownedHandles e) then None else heap s h)) \<and>
         m_depthTextureArrays s' = m_depthTextureArrays s \<and>
         (\<forall>a. m_rhiDepthTextureArray e = Some a \<longrightarrow> a \<notin> set (ownedHandles e) \<longrightarrow>
              heap s' a = heap s a \<and> a \<notin> set (drop (length (frees s)) (frees s')))"
  using assms
  by (auto simp: destroyRhiResources_eq fold_rhi_delete_frees fold_rhi_delete_heap
      fold_rhi_delete_other ownedHandles_def)

lemma exampleVsmEntry_owned: "ownedHandles exampleVsmEntry = [1, 2, 3, 4, 5, 7, 6]"
  by (simp add: ownedHandles_def ownedPointers_def exampleVsmEntry_def withRhiDepthMap_def
      QSSGShadowMapEntry_default_def)

theorem destroyRhiResources_keeps_shared_array_witness:
  "m_rhiDepthTextureArray exampleVsmEntry = Some 0 \<and>
   m_rhiDepthTextureArray (fst (destroyRhiResources exampleVsmEntry exampleVsmState)) = None \<and>
   frees (snd (destroyRhiResources exampleVsmEntry exampleVsmState)) = [1, 2, 3, 4, 5, 7, 6] \<and>
   heap (snd (destroyRhiResources exampleVsmEntry exampleVsmState)) 0
     = Some (QRhiTexture R16F (512, 512) [RenderTarget, TextureArray] 1) \<and>
   heap (snd (destroyRhiResources exampleVsmEntry exampleVsmState)) 1 = None"
proof -
  have arr: "m_rhiDepthTextureArray exampleVsmEntry = Some 0"
    by (simp add: exampleVsmEntry_def withRhiDepthMap_def QSSGShadowMapEntry_default_def)
  have fr: "frees exampleVsmState = []" and h0: "heap exampleVsmState 0
     = Some (QRhiTexture R16F (512, 512) [RenderTarget, TextureArray] 1)"
    by (simp_all add: exampleVsmState_def)
  note th = destroyRhiResources_keeps_shared_array
    [of exampleVsmEntry exampleVsmState
        "fst (destroyRhiResources exampleVsmEntry exampleVsmState)"
        "snd (destroyRhiResources exampleVsmEntry exampleVsmState)", simplified]
  from th have cl: "fst (destroyRhiResources exampleVsmEntry exampleVsmState) = clearedEntry exampleVsmEntry"
    by blast
  from th have f: "frees (snd (destroyRhiResources exampleVsmEntry exampleVsmState)) = frees exampleVsmState @ ownedHandles exampleVsmEntry"
    by blast
  from th have h: "heap (snd (destroyRhiResources exampleVsmEntry exampleVsmState)) k =
      (if k \<in> set (ownedHandles exampleVsmEntry) then None else heap exampleVsmState k)" for k
    by blast
  show ?thesis
    by (simp add: arr cl f h fr h0 exampleVsmEntry_owned clearedEntry_def)
qed


subsection \<open>The rebuild decision\<close>









lemma unat_ucast_8_32: "unat (ucast (w :: 8 word) :: 32 word) = unat w"
proof -
  have "unat w < 2 ^ 8" using unsigned_less [of w, where ?'a = nat] by simp
  then have "take_bit 32 (unat w) = unat w" by (simp add: take_bit_nat_eq_self_iff)
  then show ?thesis by (simp add: unsigned_ucast_eq)
qed







subsection \<open>Which resolutions pass the assertions\<close>

lemma nat_pow2:
  fixes n :: nat
  shows "n > 0 \<Longrightarrow> n AND (n - 1) = 0 \<Longrightarrow> \<exists>k. n = 2 ^ k"
proof (induction n rule: less_induct)
  case (less n)
  show ?case
  proof (cases "even n")
    case True
    then obtain w where w: "n = 2 * w" by (auto elim: evenE)
    with less.prems have w0: "w > 0" by simp
    have "n - 1 = 2 * (w - 1) + 1" using w w0 by simp
    then have "n AND (n - 1) = 2 * (w AND (w - 1))"
      using w by (simp add: and_nat_rec [of "2 * w"])
    with less.prems have "w AND (w - 1) = 0" by simp
    from less.IH [OF _ w0 this] w w0 obtain k where "w = 2 ^ k" by auto
    with w have "n = 2 ^ (Suc k)" by simp
    then show ?thesis by blast
  next
    case False
    then obtain w where w: "n = 2 * w + 1" by (auto elim: oddE)
    then have "n AND (n - 1) = 2 * w"
      by (simp add: and_nat_rec [of "Suc (2 * w)" "2 * w"])
    with less.prems have "w = 0" by simp
    with w have "n = 2 ^ 0" by simp
    then show ?thesis by blast
  qed
qed

lemma word_pow2:
  fixes m :: "32 word"
  assumes "m AND (m - 1) = 0" "m \<noteq> 0"
  shows "\<exists>k < 32. m = push_bit k 1"
proof -
  have pos: "unat m > 0" using assms(2) by (simp add: unat_gt_0)
  have "unat (m AND (m - 1)) = unat m AND (unat m - 1)"
    using assms(2) by (simp add: unsigned_and_eq unat_minus_one)
  with assms(1) have "unat m AND (unat m - 1) = 0" by simp
  from nat_pow2 [OF pos this] obtain k where k: "unat m = 2 ^ k" by blast
  have "(2::nat) ^ k < 2 ^ LENGTH(32)" using unsigned_less [of m, where ?'a = nat] by (simp only: k)
  then have "k < LENGTH(32)" by (rule power_less_imp_less_exp [rotated]) simp
  then have k32: "k < 32" by simp
  have "m = word_of_nat (unat m)" by simp
  also have "\<dots> = push_bit k 1" unfolding k by (simp add: push_bit_eq_mult)
  finally show ?thesis using k32 by blast
qed


lemma mapSizeToIndex_pow2_all:
  "list_all (\<lambda>k. case mapSizeToIndex (push_bit k 1) of
                     Inl x \<Rightarrow> True
                   | Inr i \<Rightarrow> 8 \<le> k \<and> k \<le> 12 \<and> i = word_of_nat (k - 8)) [0..<32]"
  by code_simp

lemma mapSizeToIndex_Inr:
  assumes "mapSizeToIndex m = Inr i"
  shows "unat i \<le> 4 \<and> m = push_bit (unat i + 8) 1"
proof -
  from assms have a: "m AND (m - 1) = 0" and b: "256 \<le> m"
    by (auto simp: mapSizeToIndex_def split: if_splits)
  from b have "m \<noteq> 0" by auto
  from word_pow2 [OF a this] obtain k where k: "k < 32" "m = push_bit k 1" by blast
  from k(1) have "k \<in> set [0..<32]" by simp
  with mapSizeToIndex_pow2_all assms k(2)
  have "8 \<le> k \<and> k \<le> 12 \<and> i = word_of_nat (k - 8)"
    unfolding list_all_iff by fastforce
  then have ki: "8 \<le> k" "k \<le> 12" "i = word_of_nat (k - 8)" by auto
  from ki(1,2) have "k = 8 \<or> k = 9 \<or> k = 10 \<or> k = 11 \<or> k = 12" by arith
  then have "unat i = k - 8" unfolding ki(3) by auto
  with ki k(2) show ?thesis by simp
qed

lemma mapSizeToIndex_roundtrip:
  "mapSizeToIndex m = Inr i \<Longrightarrow> i \<le> 4 \<and> indexToMapSize i = Inr m"
  by (drule mapSizeToIndex_Inr) (auto simp: indexToMapSize_def word_le_nat_alt)



subsection \<open>The first loop: counts and candidate layer indices\<close>

lemma castsVsm_iff: "castsVsm l \<longleftrightarrow> \<not> (\<not> shadows l \<or> lightMapMode l = CUBE)"
  by (auto simp: castsVsm_def lightMapMode_def)

lemma countLayers_Cons_skip:
  "\<not> castsVsm l \<Longrightarrow>
   countLayers (l # ls) i (n, tslc, l2l) =
     countLayers ls (Suc i) (if shadows l then Suc n else n, tslc, l2l)"
  by (simp add: castsVsm_iff Let_def)

lemma countLayers_Cons_vsm:
  "castsVsm l \<Longrightarrow>
   countLayers (l # ls) i (n, tslc, l2l) =
     (case mapSizeToIndex (m_shadowMapRes l) of
        Inl x \<Rightarrow> Inl x
      | Inr idx \<Rightarrow>
          if \<not> unat idx < length tslc then Inl OutOfBounds
          else countLayers ls (Suc i)
                 (Suc n, tslc[unat idx := tslc ! unat idx + 1], l2l[i := tslc ! unat idx]))"
  by (simp add: castsVsm_iff castsVsm_def Let_def split: sum.splits)

lemma countLayers_Cons_vsmD:
  assumes "castsVsm l" and "countLayers (l # ls) i (n, tslc, l2l) = Inr r"
  shows "\<exists>idx. mapSizeToIndex (m_shadowMapRes l) = Inr idx \<and> unat idx < length tslc \<and>
           countLayers ls (Suc i)
             (Suc n, tslc[unat idx := tslc ! unat idx + 1], l2l[i := tslc ! unat idx]) = Inr r"
  using assms(2) unfolding countLayers_Cons_vsm [OF assms(1)]
  by (auto split: sum.splits if_splits)






lemma bucketCount_Nil [simp]: "bucketCount [] res = 0"
  by (simp add: bucketCount_def)


lemma countLayers_valid:
  assumes "countLayers ls i (n, tslc, l2l) = Inr (n', tslc', l2l')"
    and "l \<in> set ls" and "castsVsm l"
  shows "\<exists>idx. mapSizeToIndex (m_shadowMapRes l) = Inr idx \<and> unat idx < length tslc"
proof -
  from assms(2) obtain j where j: "j < length ls" "ls ! j = l" by (auto simp: in_set_conv_nth)
  from assms(1,3) j show ?thesis
  proof (induction ls arbitrary: i n tslc l2l j)
    case Nil
    then show ?case by simp
  next
    case (Cons a ls)
    show ?case
    proof (cases "castsVsm a")
      case False
      with Cons.prems have "j \<noteq> 0" by (cases j) auto
      then obtain j' where jj: "j = Suc j'" by (cases j) auto
      from Cons.prems(1) have rec:
        "countLayers ls (Suc i) (if shadows a then Suc n else n, tslc, l2l) = Inr (n', tslc', l2l')"
        unfolding countLayers_Cons_skip [OF False] .
      from Cons.IH [OF rec Cons.prems(2), of j'] Cons.prems(3,4) jj show ?thesis by simp
    next
      case True
      from countLayers_Cons_vsmD [OF True Cons.prems(1)] obtain idx' where
        idx': "mapSizeToIndex (m_shadowMapRes a) = Inr idx'" "unat idx' < length tslc" and
        rec: "countLayers ls (Suc i)
                (Suc n, tslc[unat idx' := tslc ! unat idx' + 1], l2l[i := tslc ! unat idx'])
              = Inr (n', tslc', l2l')"
        by blast
      show ?thesis
      proof (cases j)
        case 0
        with Cons.prems(4) idx' show ?thesis by auto
      next
        case (Suc j')
        from Cons.IH [OF rec Cons.prems(2), of j'] Cons.prems(3,4) Suc show ?thesis by simp
      qed
    qed
  qed
qed


lemma scanLights_valid:
  assumes "scanLights lights = Inr (n, tslc, l2l)" "l \<in> set lights" "castsVsm l"
  shows "\<exists>idx. mapSizeToIndex (m_shadowMapRes l) = Inr idx \<and> unat idx < 4"
  using countLayers_valid [OF assms(1) [unfolded scanLights_def] assms(2,3)] by simp

















subsection \<open>What the two construction paths do to the state\<close>

lemma if_qWarning:
  "(if c then qWarning w s else s) = s\<lparr>warnings := warnings s @ (if c then [w] else [])\<rparr>"
  by (simp add: qWarning_def)

lemma count_list_if_single:
  "count_list (if c then [w] else []) x = (if c \<and> w = x then 1 else 0)"
  by simp

lemma replicate_6: "replicate 6 x = [x, x, x, x, x, x]"
  by (simp add: eval_nat_numeral)

lemmas alloc_defs = rhi_new_def newCompatibleRenderPassDescriptor_def setArraySize_def
  setRenderPassDescriptor_def allocateRhiShadowTexture_def allocateRhiShadowRenderBuffer_def

lemma storedAt_Nil: "storedAt s a [] = True"
  by (simp add: storedAt_def)

lemma storedAt_Cons: "storedAt s a (x # xs) \<longleftrightarrow> heap s a = Some x \<and> storedAt s (Suc a) xs"
proof -
  have e: "a + length (x # xs) = Suc a + length xs" by simp
  have u: "[a ..< Suc a + length xs] = a # [Suc a ..< Suc a + length xs]"
    by (rule upt_conv_Cons) simp
  show ?thesis unfolding storedAt_def e u by simp
qed

lemma storedAt_nth:
  assumes "storedAt s a objs" and "k < length objs"
  shows "heap s (a + k) = Some (objs ! k)"
proof -
  have "map (heap s) [a ..< a + length objs] ! k = map Some objs ! k"
    using assms(1) by (simp add: storedAt_def)
  then show ?thesis using assms(2) by simp
qed

lemma addDirectionalShadowMap_pre:
  assumes "addDirectionalShadowMap lightIdx sz layerIndex s = Inr s'"
  shows "\<exists>r arr. rhi s = Some r \<and> shadowMapEntry s lightIdx = None \<and>
           map_of (m_depthTextureArrays s) sz = Some arr"
  using assms
  by (cases "rhi s"; cases "shadowMapEntry s lightIdx"; cases "map_of (m_depthTextureArrays s) sz")
     (simp_all add: addDirectionalShadowMap_def)

lemma addDirectionalShadowMap_eval:
  assumes "rhi s = Some r" "shadowMapEntry s lightIdx = None"
    "map_of (m_depthTextureArrays s) sz = Some arr"
  shows "\<exists>s'. addDirectionalShadowMap lightIdx sz layerIndex s = Inr s' \<and>
           m_shadowMapList s' = m_shadowMapList s @ [vsmEntry (allocs s) lightIdx arr layerIndex] \<and>
           allocs s' = allocs s + 7 \<and> rhi s' = rhi s \<and> frees s' = frees s \<and>
           warned s' = warned s \<and> m_depthTextureArrays s' = m_depthTextureArrays s \<and>
           (\<forall>h. h < allocs s \<longrightarrow> heap s' h = heap s h) \<and>
           count_list (warnings s') CubemapNotBlurred = count_list (warnings s) CubemapNotBlurred \<and>
           storedAt s' (allocs s)
             (vsmObjects (getShadowMapTextureFormat r) sz arr (unat layerIndex) (allocs s))"
  using assms
  by (simp add: addDirectionalShadowMap_def alloc_defs if_qWarning Let_def vsmEntry_def
      withRhiDepthMap_def QSSGShadowMapEntry_default_def replicate_6 count_list_if_single
      vsmObjects_def storedAt_Cons storedAt_Nil)

lemma addCubeShadowMap_pre:
  assumes "addCubeShadowMap lightIdx sz s = Inr s'"
  shows "\<exists>r. rhi s = Some r \<and> shadowMapEntry s lightIdx = None"
  using assms
  by (cases "rhi s"; cases "shadowMapEntry s lightIdx")
     (simp_all add: addCubeShadowMap_def)

lemma addCubeShadowMap_eval:
  assumes "rhi s = Some r" "shadowMapEntry s lightIdx = None"
  shows "\<exists>s'. addCubeShadowMap lightIdx sz s = Inr s' \<and>
           m_shadowMapList s' =
             m_shadowMapList s @ [cubeEntry (allocs s) lightIdx (maxColorAttachments r \<ge> 6)] \<and>
           allocs s' = allocs s + (if maxColorAttachments r \<ge> 6 then 13 else 10) \<and>
           rhi s' = rhi s \<and> frees s' = frees s \<and>
           warned s' = (warned s \<or> \<not> maxColorAttachments r \<ge> 6) \<and>
           m_depthTextureArrays s' = m_depthTextureArrays s \<and>
           (\<forall>h. h < allocs s \<longrightarrow> heap s' h = heap s h) \<and>
           heap s' (allocs s) =
             Some (QRhiTexture (getShadowMapTextureFormat r) sz [RenderTarget, CubeMap] 0) \<and>
           heap s' (allocs s + 1) =
             Some (QRhiTexture (getShadowMapTextureFormat r) sz [RenderTarget, CubeMap] 0) \<and>
           count_list (warnings s') CubemapNotBlurred =
             count_list (warnings s) CubemapNotBlurred
             + (if \<not> maxColorAttachments r \<ge> 6 \<and> \<not> warned s then 1 else 0) \<and>
           storedAt s' (allocs s)
             (cubeObjects (getShadowMapTextureFormat r) sz (maxColorAttachments r \<ge> 6)
                (allocs s))"
  using assms
  by (simp add: addCubeShadowMap_def addCubeBlur_def QSSGRenderTextureCubeFaces_def
      alloc_defs if_qWarning qWarning_def Let_def cubeEntry_def
      withRhiDepthCubeMap_def QSSGShadowMapEntry_default_def replicate_6 count_list_if_single
      cubeObjects_def storedAt_Cons storedAt_Nil)


subsection \<open>The loop that allocates the shared arrays\<close>

lemma le4_cases: "(i::nat) \<le> 4 \<Longrightarrow> i = 0 \<or> i = 1 \<or> i = 2 \<or> i = 3 \<or> i = 4"
  by arith

lemma indexToMapSize_of_nat:
  "i \<le> 4 \<Longrightarrow> indexToMapSize (word_of_nat i) = Inr (push_bit (i + 8) 1)"
  by (drule le4_cases) (auto simp: indexToMapSize_def)

lemma bucketSize_inj:
  "i \<le> 4 \<Longrightarrow> j \<le> 4 \<Longrightarrow> bucketSize i = bucketSize j \<Longrightarrow> i = j"
  by (drule le4_cases, drule le4_cases) (auto simp: bucketSize_def QSize_def)

lemma update_fresh:
  "k \<notin> fst ` set al \<Longrightarrow> AList.update k v al = al @ [(k, v)]"
  by (induction al) auto

lemma createTextureArrays_Cons_zero:
  "unat c = 0 \<Longrightarrow> createTextureArrays r (c # cs) i s = createTextureArrays r cs (Suc i) s"
  by (simp add: Let_def)

lemma createTextureArrays_Cons_alloc:
  assumes "unat c \<noteq> 0" "i \<le> 4" "bucketSize i \<notin> fst ` set (m_depthTextureArrays s)"
  shows "\<exists>s2. createTextureArrays r (c # cs) i s = createTextureArrays r cs (Suc i) s2 \<and>
           m_depthTextureArrays s2 = m_depthTextureArrays s @ [(bucketSize i, allocs s)] \<and>
           allocs s2 = Suc (allocs s) \<and>
           heap s2 (allocs s) =
             Some (QRhiTexture (getShadowMapTextureFormat r) (bucketSize i)
                     [RenderTarget, TextureArray] (unat c)) \<and>
           (\<forall>h. h < allocs s \<longrightarrow> heap s2 h = heap s h) \<and>
           m_shadowMapList s2 = m_shadowMapList s \<and> rhi s2 = rhi s \<and> frees s2 = frees s \<and>
           warned s2 = warned s \<and>
           count_list (warnings s2) CubemapNotBlurred = count_list (warnings s) CubemapNotBlurred"
proof -
  let ?s2 = "(snd (allocateRhiShadowTexture r (getShadowMapTextureFormat r) (bucketSize i) (unat c)
                [RenderTarget, TextureArray] s))
             \<lparr>m_depthTextureArrays := m_depthTextureArrays s @ [(bucketSize i, allocs s)]\<rparr>"
  have "createTextureArrays r (c # cs) i s = createTextureArrays r cs (Suc i) ?s2"
    using assms
    by (simp add: Let_def indexToMapSize_of_nat alloc_defs if_qWarning update_fresh
        bucketSize_def)
  moreover have "m_depthTextureArrays ?s2 = m_depthTextureArrays s @ [(bucketSize i, allocs s)]"
    by simp
  moreover have "allocs ?s2 = Suc (allocs s) \<and>
           heap ?s2 (allocs s) =
             Some (QRhiTexture (getShadowMapTextureFormat r) (bucketSize i)
                     [RenderTarget, TextureArray] (unat c)) \<and>
           (\<forall>h. h < allocs s \<longrightarrow> heap ?s2 h = heap s h) \<and>
           m_shadowMapList ?s2 = m_shadowMapList s \<and> rhi ?s2 = rhi s \<and> frees ?s2 = frees s \<and>
           warned ?s2 = warned s \<and>
           count_list (warnings ?s2) CubemapNotBlurred = count_list (warnings s) CubemapNotBlurred"
    by (simp add: alloc_defs if_qWarning count_list_if_single)
  ultimately show ?thesis by blast
qed


lemma createTextureArrays_eval:
  assumes "i + length cs \<le> 5"
    and "\<forall>j. i \<le> j \<longrightarrow> j < i + length cs \<longrightarrow>
           bucketSize j \<notin> fst ` set (m_depthTextureArrays s)"
  shows "\<exists>s'. createTextureArrays r cs i s = Inr s' \<and>
           m_depthTextureArrays s' =
             m_depthTextureArrays s
             @ zip (map fst (arraySpecs cs i))
                   [allocs s ..< allocs s + length (arraySpecs cs i)] \<and>
           allocs s' = allocs s + length (arraySpecs cs i) \<and>
           (\<forall>k < length (arraySpecs cs i).
              heap s' (allocs s + k) =
                Some (QRhiTexture (getShadowMapTextureFormat r) (fst (arraySpecs cs i ! k))
                        [RenderTarget, TextureArray] (snd (arraySpecs cs i ! k)))) \<and>
           (\<forall>h. h < allocs s \<longrightarrow> heap s' h = heap s h) \<and>
           m_shadowMapList s' = m_shadowMapList s \<and> rhi s' = rhi s \<and> frees s' = frees s \<and>
           warned s' = warned s \<and>
           count_list (warnings s') CubemapNotBlurred = count_list (warnings s) CubemapNotBlurred"
  using assms
proof (induction cs arbitrary: i s)
  case Nil
  then show ?case by simp
next
  case (Cons c cs)
  have len: "Suc i + length cs \<le> 5" using Cons.prems(1) by simp
  show ?case
  proof (cases "unat c = 0")
    case True
    have "\<forall>j. Suc i \<le> j \<longrightarrow> j < Suc i + length cs \<longrightarrow>
           bucketSize j \<notin> fst ` set (m_depthTextureArrays s)"
      using Cons.prems(2) by simp
    from Cons.IH [OF len this] True show ?thesis
      by (simp add: createTextureArrays_Cons_zero)
  next
    case False
    have i4: "i \<le> 4" using Cons.prems(1) by simp
    have fresh: "bucketSize i \<notin> fst ` set (m_depthTextureArrays s)"
      using Cons.prems(2) [rule_format, of i] by simp
    from createTextureArrays_Cons_alloc [OF False i4 fresh, of r cs] obtain s2 where
      step: "createTextureArrays r (c # cs) i s = createTextureArrays r cs (Suc i) s2" and
      arr2: "m_depthTextureArrays s2 = m_depthTextureArrays s @ [(bucketSize i, allocs s)]" and
      al2: "allocs s2 = Suc (allocs s)" and
      hp2: "heap s2 (allocs s) =
             Some (QRhiTexture (getShadowMapTextureFormat r) (bucketSize i)
                     [RenderTarget, TextureArray] (unat c))" and
      old2: "\<forall>h. h < allocs s \<longrightarrow> heap s2 h = heap s h" and
      rest2: "m_shadowMapList s2 = m_shadowMapList s" "rhi s2 = rhi s" "frees s2 = frees s"
        "warned s2 = warned s"
        "count_list (warnings s2) CubemapNotBlurred = count_list (warnings s) CubemapNotBlurred"
      by (elim exE conjE) (rule that; assumption)
    have fresh2: "\<forall>j. Suc i \<le> j \<longrightarrow> j < Suc i + length cs \<longrightarrow>
           bucketSize j \<notin> fst ` set (m_depthTextureArrays s2)"
    proof (intro allI impI)
      fix j assume j: "Suc i \<le> j" "j < Suc i + length cs"
      from j len have j4: "j \<le> 4" by simp
      have ne: "bucketSize j \<noteq> bucketSize i"
        using bucketSize_inj [OF j4 i4] j(1) by auto
      have old: "bucketSize j \<notin> fst ` set (m_depthTextureArrays s)"
        using Cons.prems(2) [rule_format, of j] j by simp
      show "bucketSize j \<notin> fst ` set (m_depthTextureArrays s2)"
        unfolding arr2 using ne old by auto
    qed
    from Cons.IH [OF len fresh2] obtain s' where
      res: "createTextureArrays r cs (Suc i) s2 = Inr s'" and
      arr: "m_depthTextureArrays s' =
             m_depthTextureArrays s2
             @ zip (map fst (arraySpecs cs (Suc i)))
                   [allocs s2 ..< allocs s2 + length (arraySpecs cs (Suc i))]" and
      al: "allocs s' = allocs s2 + length (arraySpecs cs (Suc i))" and
      hp: "\<forall>k < length (arraySpecs cs (Suc i)).
              heap s' (allocs s2 + k) =
                Some (QRhiTexture (getShadowMapTextureFormat r) (fst (arraySpecs cs (Suc i) ! k))
                        [RenderTarget, TextureArray] (snd (arraySpecs cs (Suc i) ! k)))" and
      old: "\<forall>h. h < allocs s2 \<longrightarrow> heap s' h = heap s2 h" and
      rest: "m_shadowMapList s' = m_shadowMapList s2" "rhi s' = rhi s2" "frees s' = frees s2"
        "warned s' = warned s2"
        "count_list (warnings s') CubemapNotBlurred = count_list (warnings s2) CubemapNotBlurred"
      by (elim exE conjE) (rule that; assumption)
    have specs: "arraySpecs (c # cs) i = (bucketSize i, unat c) # arraySpecs cs (Suc i)"
      using False by simp
    have u: "[allocs s ..< allocs s + Suc n] = allocs s # [Suc (allocs s) ..< Suc (allocs s) + n]" for n
      by (simp add: upt_conv_Cons)
    have a1: "m_depthTextureArrays s' =
             m_depthTextureArrays s
             @ zip (map fst (arraySpecs (c # cs) i))
                   [allocs s ..< allocs s + length (arraySpecs (c # cs) i)]"
      unfolding specs arr arr2 al2 list.map length_Cons u by simp
    have a2: "allocs s' = allocs s + length (arraySpecs (c # cs) i)"
      unfolding specs al al2 by simp
    have a3: "\<forall>k < length (arraySpecs (c # cs) i). heap s' (allocs s + k) =
                Some (QRhiTexture (getShadowMapTextureFormat r) (fst (arraySpecs (c # cs) i ! k))
                        [RenderTarget, TextureArray] (snd (arraySpecs (c # cs) i ! k)))"
    proof (intro allI impI)
      fix k assume k: "k < length (arraySpecs (c # cs) i)"
      show "heap s' (allocs s + k) =
                Some (QRhiTexture (getShadowMapTextureFormat r) (fst (arraySpecs (c # cs) i ! k))
                        [RenderTarget, TextureArray] (snd (arraySpecs (c # cs) i ! k)))"
      proof (cases k)
        case 0
        have "heap s' (allocs s) = heap s2 (allocs s)" using old al2 by simp
        with hp2 0 show ?thesis unfolding specs by simp
      next
        case (Suc k')
        with k have "k' < length (arraySpecs cs (Suc i))" unfolding specs by simp
        with hp have "heap s' (allocs s2 + k') =
                Some (QRhiTexture (getShadowMapTextureFormat r) (fst (arraySpecs cs (Suc i) ! k'))
                        [RenderTarget, TextureArray] (snd (arraySpecs cs (Suc i) ! k')))" by blast
        then show ?thesis unfolding specs Suc al2 by simp
      qed
    qed
    have a4: "\<forall>h. h < allocs s \<longrightarrow> heap s' h = heap s h"
    proof (intro allI impI)
      fix h assume "h < allocs s"
      then have "heap s' h = heap s2 h" "heap s2 h = heap s h" using old old2 al2 by simp_all
      then show "heap s' h = heap s h" by simp
    qed
    have a5: "m_shadowMapList s' = m_shadowMapList s" "rhi s' = rhi s" "frees s' = frees s"
        "warned s' = warned s"
        "count_list (warnings s') CubemapNotBlurred = count_list (warnings s) CubemapNotBlurred"
      using rest rest2 by simp_all
    have r0: "createTextureArrays r (c # cs) i s = Inr s'" using step res by (simp only:)
    show ?thesis
      by (intro exI [of _ s'] conjI) (rule r0 a1 a2 a3 a4 a5)+
  qed
qed


subsection \<open>The loop that builds the entries\<close>

lemma shadowMapEntry_None:
  "\<forall>e \<in> set (m_shadowMapList s). m_lightIndex e < i \<Longrightarrow> shadowMapEntry s i = None"
  by (auto simp: shadowMapEntry_def find_None_iff)

lemma extends_refl: "extends s s"
  by (simp add: extends_def)

lemma extends_trans: "extends s s1 \<Longrightarrow> extends s1 s2 \<Longrightarrow> extends s s2"
  by (auto simp: extends_def)

lemma length_vsmObjects [simp]: "length (vsmObjects f sz arr layer a) = 7"
  by (simp add: vsmObjects_def)

lemma length_cubeObjects: "length (cubeObjects f sz blur a) = (if blur then 13 else 10)"
  by (simp add: cubeObjects_def)

lemma ownedHandles_vsmEntry:
  "ownedHandles (vsmEntry a j arr layer) = [a, a + 1, a + 2, a + 3, a + 4, a + 6, a + 5]"
  by (simp add: ownedHandles_def ownedPointers_def vsmEntry_def)

lemma ownedHandles_cubeEntry:
  "ownedHandles (cubeEntry a j blur) =
     [a, a + 1, a + 2, a + 3, a + 5, a + 6, a + 7, a + 8, a + 9, a + 4]
     @ (if blur then [a + 10, a + 12, a + 11] else [])"
  by (simp add: ownedHandles_def ownedPointers_def cubeEntry_def)

lemma storedAt_extends:
  assumes "storedAt s a objs" and "a + length objs \<le> allocs s" and "extends s s'"
  shows "storedAt s' a objs"
proof -
  have "map (heap s') [a ..< a + length objs] = map (heap s) [a ..< a + length objs]"
  proof (rule map_cong [OF refl])
    fix h assume "h \<in> set [a ..< a + length objs]"
    then have "h < allocs s" using assms(2) by simp
    with assms(3) show "heap s' h = heap s h" by (simp add: extends_def)
  qed
  with assms(1) show ?thesis by (simp add: storedAt_def)
qed

lemma builtFor_extends:
  assumes "builtFor r s l2l jl e" and "extends s s'"
  shows "builtFor r s' l2l jl e"
proof (cases jl)
  case (Pair j l)
  have le: "allocs s \<le> allocs s'" and arrs: "m_depthTextureArrays s' = m_depthTextureArrays s"
    using assms(2) by (simp_all add: extends_def)
  show ?thesis
  proof (cases "ltype l = DirectionalLight")
    case True
    with assms(1) Pair obtain a arr where
      a: "e = vsmEntry a j arr (ucast (l2l ! j))"
        "map_of (m_depthTextureArrays s) (candidateSize l) = Some arr" "arr < a"
        "a + 7 \<le> allocs s"
        "storedAt s a (vsmObjects (getShadowMapTextureFormat r) (candidateSize l) arr
                                  (unat (l2l ! j)) a)"
      by (auto simp: builtFor_def)
    have "a + length (vsmObjects (getShadowMapTextureFormat r) (candidateSize l) arr
                                  (unat (l2l ! j)) a) \<le> allocs s"
      using a(4) by simp
    from storedAt_extends [OF a(5) this assms(2)] a le arrs True Pair show ?thesis
      by (auto simp: builtFor_def)
  next
    case False
    with assms(1) Pair obtain a where
      a: "e = cubeEntry a j (maxColorAttachments r \<ge> 6)"
        "a + (if maxColorAttachments r \<ge> 6 then 13 else 10) \<le> allocs s"
        "storedAt s a (cubeObjects (getShadowMapTextureFormat r) (candidateSize l)
                                  (maxColorAttachments r \<ge> 6) a)"
      by (auto simp: builtFor_def)
    have "a + length (cubeObjects (getShadowMapTextureFormat r) (candidateSize l)
                                  (maxColorAttachments r \<ge> 6) a) \<le> allocs s"
      unfolding length_cubeObjects by (rule a(2))
    from storedAt_extends [OF a(3) this assms(2)] a le False Pair show ?thesis
      by (auto simp: builtFor_def)
  qed
qed

lemma shadowCasters_Nil [simp]: "shadowCasters i [] = []"
  by (simp add: shadowCasters_def)

lemma shadowCasters_Cons:
  "shadowCasters i (l # ls) =
     (if shadows l then (i, l) # shadowCasters (Suc i) ls else shadowCasters (Suc i) ls)"
proof -
  have u: "[i ..< i + Suc n] = i # [Suc i ..< Suc i + n]" for n
    by (simp add: upt_conv_Cons)
  show ?thesis unfolding shadowCasters_def length_Cons u by simp
qed

lemma castsCube_Nil [simp]: "\<not> castsCube []"
  by (simp add: castsCube_def)

lemma castsCube_Cons:
  "castsCube (l # ls) \<longleftrightarrow> (shadows l \<and> ltype l \<noteq> DirectionalLight) \<or> castsCube ls"
  by (auto simp: castsCube_def)

lemma setupRenderTargets_Cons_skip:
  "\<not> shadows l \<Longrightarrow> setupRenderTargets (l # ls) i l2l s = setupRenderTargets ls (Suc i) l2l s"
  by simp

lemma setupRenderTargets_Cons_vsm:
  "shadows l \<Longrightarrow> ltype l = DirectionalLight \<Longrightarrow> i < length l2l \<Longrightarrow>
   setupRenderTargets (l # ls) i l2l s =
     (case addDirectionalShadowMap i (candidateSize l) (ucast (l2l ! i)) s of
        Inl x \<Rightarrow> Inl x
      | Inr s' \<Rightarrow> setupRenderTargets ls (Suc i) l2l s')"
  by (simp add: lightMapMode_def candidateSize_def value_at_def Let_def)

lemma setupRenderTargets_Cons_cube:
  "shadows l \<Longrightarrow> ltype l \<noteq> DirectionalLight \<Longrightarrow>
   setupRenderTargets (l # ls) i l2l s =
     (case addCubeShadowMap i (candidateSize l) s of
        Inl x \<Rightarrow> Inl x
      | Inr s' \<Rightarrow> setupRenderTargets ls (Suc i) l2l s')"
  by (simp add: lightMapMode_def candidateSize_def Let_def)

lemma setupRenderTargets_eval:
  assumes "rhi s = Some r"
    and "\<forall>e \<in> set (m_shadowMapList s). m_lightIndex e < i"
    and "\<forall>l \<in> set ls. castsVsm l \<longrightarrow> map_of (m_depthTextureArrays s) (candidateSize l) \<noteq> None"
    and "\<forall>kh \<in> set (m_depthTextureArrays s). snd kh < allocs s"
    and "i + length ls \<le> length l2l"
  shows "\<exists>s' es. setupRenderTargets ls i l2l s = Inr s' \<and> extends s s' \<and>
           m_shadowMapList s' = m_shadowMapList s @ es \<and>
           list_all2 (builtFor r s' l2l) (shadowCasters i ls) es \<and>
           (\<forall>e \<in> set es. \<forall>h \<in> set (ownedHandles e). allocs s \<le> h \<and> h < allocs s') \<and>
           warned s' = (warned s \<or> (\<not> maxColorAttachments r \<ge> 6 \<and> castsCube ls)) \<and>
           count_list (warnings s') CubemapNotBlurred =
             count_list (warnings s) CubemapNotBlurred
             + (if \<not> maxColorAttachments r \<ge> 6 \<and> \<not> warned s \<and> castsCube ls then 1 else 0)"
  using assms
proof (induction ls arbitrary: i s)
  case Nil
  then show ?case by (simp add: extends_refl)
next
  case (Cons l ls)
  have rest: "Suc i + length ls \<le> length l2l" and il: "i < length l2l"
    using Cons.prems(5) by simp_all
  have none: "shadowMapEntry s i = None"
    by (rule shadowMapEntry_None [OF Cons.prems(2)])
  show ?case
  proof (cases "shadows l")
    case False
    have idx: "\<forall>e \<in> set (m_shadowMapList s). m_lightIndex e < Suc i"
      using Cons.prems(2) by auto
    have arrs: "\<forall>l \<in> set ls. castsVsm l \<longrightarrow> map_of (m_depthTextureArrays s) (candidateSize l) \<noteq> None"
      using Cons.prems(3) by simp
    from Cons.IH [OF Cons.prems(1) idx arrs Cons.prems(4) rest] False show ?thesis
      by (simp add: setupRenderTargets_Cons_skip shadowCasters_Cons castsCube_Cons)
  next
    case sh: True
    show ?thesis
    proof (cases "ltype l = DirectionalLight")
      case True
      with sh have "castsVsm l" by (simp add: castsVsm_def)
      with Cons.prems(3) obtain arr where
        arr: "map_of (m_depthTextureArrays s) (candidateSize l) = Some arr" by auto
      then have "(candidateSize l, arr) \<in> set (m_depthTextureArrays s)" by (rule map_of_SomeD)
      with Cons.prems(4) have arrlt: "arr < allocs s" by auto
      let ?e = "vsmEntry (allocs s) i arr (ucast (l2l ! i))"
      from addDirectionalShadowMap_eval [OF Cons.prems(1) none arr, of "ucast (l2l ! i)"]
      obtain s1 where
        run: "addDirectionalShadowMap i (candidateSize l) (ucast (l2l ! i)) s = Inr s1" and
        lst: "m_shadowMapList s1 = m_shadowMapList s @ [?e]" and
        al: "allocs s1 = allocs s + 7" and
        same: "rhi s1 = rhi s" "frees s1 = frees s" "warned s1 = warned s"
          "m_depthTextureArrays s1 = m_depthTextureArrays s" and
        hp: "\<forall>h. h < allocs s \<longrightarrow> heap s1 h = heap s h" and
        cnt: "count_list (warnings s1) CubemapNotBlurred = count_list (warnings s) CubemapNotBlurred" and
        st: "storedAt s1 (allocs s)
               (vsmObjects (getShadowMapTextureFormat r) (candidateSize l) arr
                  (unat (ucast (l2l ! i) :: 32 word)) (allocs s))"
        by (elim exE conjE) (rule that; assumption)
      have ext1: "extends s s1" using same al hp by (simp add: extends_def)
      have r1: "rhi s1 = Some r" using same Cons.prems(1) by simp
      have idx1: "\<forall>e \<in> set (m_shadowMapList s1). m_lightIndex e < Suc i"
        using Cons.prems(2) unfolding lst by (auto simp: vsmEntry_def)
      have arrs1: "\<forall>l \<in> set ls. castsVsm l \<longrightarrow> map_of (m_depthTextureArrays s1) (candidateSize l) \<noteq> None"
        using Cons.prems(3) unfolding same by simp
      have lt1: "\<forall>kh \<in> set (m_depthTextureArrays s1). snd kh < allocs s1"
        using Cons.prems(4) unfolding same al by auto
      from Cons.IH [OF r1 idx1 arrs1 lt1 rest] obtain s' es where
        run': "setupRenderTargets ls (Suc i) l2l s1 = Inr s'" and
        ext': "extends s1 s'" and
        lst': "m_shadowMapList s' = m_shadowMapList s1 @ es" and
        all': "list_all2 (builtFor r s' l2l) (shadowCasters (Suc i) ls) es" and
        new': "\<forall>e \<in> set es. \<forall>h \<in> set (ownedHandles e). allocs s1 \<le> h \<and> h < allocs s'" and
        wd': "warned s' = (warned s1 \<or> (\<not> maxColorAttachments r \<ge> 6 \<and> castsCube ls))" and
        cnt': "count_list (warnings s') CubemapNotBlurred =
             count_list (warnings s1) CubemapNotBlurred
             + (if \<not> maxColorAttachments r \<ge> 6 \<and> \<not> warned s1 \<and> castsCube ls then 1 else 0)"
        by (elim exE conjE) (rule that; assumption)
      have b0: "builtFor r s1 l2l (i, l) ?e"
        using True arr arrlt st unfolding builtFor_def same al unat_ucast_8_32 by auto
      have b: "builtFor r s' l2l (i, l) ?e"
        by (rule builtFor_extends [OF b0 ext'])
      have g1: "setupRenderTargets (l # ls) i l2l s = Inr s'"
        unfolding setupRenderTargets_Cons_vsm [OF sh True il] run using run' by simp
      have g2: "extends s s'" by (rule extends_trans [OF ext1 ext'])
      have g3: "m_shadowMapList s' = m_shadowMapList s @ (?e # es)"
        unfolding lst' lst by simp
      have g4: "list_all2 (builtFor r s' l2l) (shadowCasters i (l # ls)) (?e # es)"
        unfolding shadowCasters_Cons using sh b all' by simp
      have le': "allocs s1 \<le> allocs s'" using ext' by (simp add: extends_def)
      have g4': "\<forall>e \<in> set (?e # es). \<forall>h \<in> set (ownedHandles e). allocs s \<le> h \<and> h < allocs s'"
      proof (intro ballI)
        fix e h assume e: "e \<in> set (?e # es)" and h: "h \<in> set (ownedHandles e)"
        show "allocs s \<le> h \<and> h < allocs s'"
        proof (cases "e = ?e")
          case True
          with h le' al show ?thesis by (auto simp: ownedHandles_vsmEntry split: if_splits)
        next
          case False
          with e have "e \<in> set es" by simp
          with new' h have "allocs s1 \<le> h \<and> h < allocs s'" by blast
          with al show ?thesis by (simp split: if_splits)
        qed
      qed
      have g5: "warned s' = (warned s \<or> (\<not> maxColorAttachments r \<ge> 6 \<and> castsCube (l # ls)))"
        unfolding wd' same castsCube_Cons using True by simp
      have g6: "count_list (warnings s') CubemapNotBlurred =
             count_list (warnings s) CubemapNotBlurred
             + (if \<not> maxColorAttachments r \<ge> 6 \<and> \<not> warned s \<and> castsCube (l # ls) then 1 else 0)"
        unfolding cnt' cnt same castsCube_Cons using True by simp
      show ?thesis
        by (intro exI [of _ s'] exI [of _ "?e # es"] conjI)
           (rule g1 g2 g3 g4 g4' g5 g6)+
    next
      case False
      let ?blur = "maxColorAttachments r \<ge> 6"
      let ?e = "cubeEntry (allocs s) i ?blur"
      from addCubeShadowMap_eval [OF Cons.prems(1) none, of "candidateSize l"]
      obtain s1 where
        run: "addCubeShadowMap i (candidateSize l) s = Inr s1" and
        lst: "m_shadowMapList s1 = m_shadowMapList s @ [?e]" and
        al: "allocs s1 = allocs s + (if ?blur then 13 else 10)" and
        same: "rhi s1 = rhi s" "frees s1 = frees s"
          "m_depthTextureArrays s1 = m_depthTextureArrays s" and
        wd: "warned s1 = (warned s \<or> \<not> ?blur)" and
        hp: "\<forall>h. h < allocs s \<longrightarrow> heap s1 h = heap s h" and
        cnt: "count_list (warnings s1) CubemapNotBlurred =
             count_list (warnings s) CubemapNotBlurred
             + (if \<not> ?blur \<and> \<not> warned s then 1 else 0)" and
        st: "storedAt s1 (allocs s)
               (cubeObjects (getShadowMapTextureFormat r) (candidateSize l) ?blur (allocs s))"
        by (elim exE conjE) (rule that; assumption)
      have ext1: "extends s s1" using same al hp by (simp add: extends_def)
      have r1: "rhi s1 = Some r" using same Cons.prems(1) by simp
      have idx1: "\<forall>e \<in> set (m_shadowMapList s1). m_lightIndex e < Suc i"
        using Cons.prems(2) unfolding lst by (auto simp: cubeEntry_def)
      have arrs1: "\<forall>l \<in> set ls. castsVsm l \<longrightarrow> map_of (m_depthTextureArrays s1) (candidateSize l) \<noteq> None"
        using Cons.prems(3) unfolding same by simp
      have lt1: "\<forall>kh \<in> set (m_depthTextureArrays s1). snd kh < allocs s1"
        using Cons.prems(4) unfolding same al by auto
      from Cons.IH [OF r1 idx1 arrs1 lt1 rest] obtain s' es where
        run': "setupRenderTargets ls (Suc i) l2l s1 = Inr s'" and
        ext': "extends s1 s'" and
        lst': "m_shadowMapList s' = m_shadowMapList s1 @ es" and
        all': "list_all2 (builtFor r s' l2l) (shadowCasters (Suc i) ls) es" and
        new': "\<forall>e \<in> set es. \<forall>h \<in> set (ownedHandles e). allocs s1 \<le> h \<and> h < allocs s'" and
        wd': "warned s' = (warned s1 \<or> (\<not> ?blur \<and> castsCube ls))" and
        cnt': "count_list (warnings s') CubemapNotBlurred =
             count_list (warnings s1) CubemapNotBlurred
             + (if \<not> ?blur \<and> \<not> warned s1 \<and> castsCube ls then 1 else 0)"
        by (elim exE conjE) (rule that; assumption)
      have b0: "builtFor r s1 l2l (i, l) ?e"
        using False st unfolding builtFor_def al by auto
      have b: "builtFor r s' l2l (i, l) ?e"
        by (rule builtFor_extends [OF b0 ext'])
      have g1: "setupRenderTargets (l # ls) i l2l s = Inr s'"
        unfolding setupRenderTargets_Cons_cube [OF sh False] run using run' by simp
      have g2: "extends s s'" by (rule extends_trans [OF ext1 ext'])
      have g3: "m_shadowMapList s' = m_shadowMapList s @ (?e # es)"
        unfolding lst' lst by simp
      have g4: "list_all2 (builtFor r s' l2l) (shadowCasters i (l # ls)) (?e # es)"
        unfolding shadowCasters_Cons using sh b all' by simp
      have le': "allocs s1 \<le> allocs s'" using ext' by (simp add: extends_def)
      have g4': "\<forall>e \<in> set (?e # es). \<forall>h \<in> set (ownedHandles e). allocs s \<le> h \<and> h < allocs s'"
      proof (intro ballI)
        fix e h assume e: "e \<in> set (?e # es)" and h: "h \<in> set (ownedHandles e)"
        show "allocs s \<le> h \<and> h < allocs s'"
        proof (cases "e = ?e")
          case True
          with h le' al show ?thesis by (auto simp: ownedHandles_cubeEntry split: if_splits)
        next
          case False
          with e have "e \<in> set es" by simp
          with new' h have "allocs s1 \<le> h \<and> h < allocs s'" by blast
          with al show ?thesis by (simp split: if_splits)
        qed
      qed
      have g5: "warned s' = (warned s \<or> (\<not> ?blur \<and> castsCube (l # ls)))"
        unfolding wd' wd castsCube_Cons using False sh by auto
      have g6: "count_list (warnings s') CubemapNotBlurred =
             count_list (warnings s) CubemapNotBlurred
             + (if \<not> ?blur \<and> \<not> warned s \<and> castsCube (l # ls) then 1 else 0)"
        unfolding cnt' cnt wd castsCube_Cons using False sh by auto
      show ?thesis
        by (intro exI [of _ s'] exI [of _ "?e # es"] conjI)
           (rule g1 g2 g3 g4 g4' g5 g6)+
    qed
  qed
qed

subsection \<open>The decision of addShadowMaps\<close>









end
